(* ===== verification/Prelude.thy ===== *)
theory Prelude
  imports Main
begin
text \<open>
  Shared vocabulary of the model of \<open>src/pyfred/script03_apiwrapgen.py\<close>: the
  Python exceptions the generator can raise (as values of a sum type), the Python
  string primitives it relies on (\<open>\s\<close> of the \<open>re\<close> module, \<open>str.upper\<close>,
  \<open>str.join\<close>), the indentation constants \<open>I1\<close>, \<open>I2\<close>, \<open>I3\<close> of the script,
  and the generic lemmas on lists and association lists the component theories share.
  Python strings are modelled as \<open>string\<close> (lists of 8-bit \<open>char\<close>); the model
  is faithful for ASCII text.
\<close>

named_theorems text_simps \<open>equations that evaluate the generator's string building\<close>

subsection \<open>Python errors\<close>

text \<open>
  The exceptions the script can raise while generating one wrapper: a missing
  dictionary key (\<open>docdat[cmdname]\<close>) and a failed tuple unpacking
  (\<open>rname, rtype = rlist\<close>, \<open>for rn, rt in sigits\<close>).
\<close>

datatype py_error = KeyError string | ValueError

type_synonym 'a result = "py_error + 'a"

subsection \<open>Characters and strings\<close>

text \<open>
  Python's \<open>\s\<close> for \<open>str\<close> patterns matches the characters for which
  \<open>str.isspace\<close> holds; among ASCII these are TAB, LF, VT, FF, CR, the four
  separators 0x1C--0x1F and SPACE.
\<close>

definition is_ws :: "char \<Rightarrow> bool" where
  "is_ws c \<longleftrightarrow> of_char c \<in> ({9, 10, 11, 12, 13, 28, 29, 30, 31, 32} :: nat set)"

definition all_ws :: "string \<Rightarrow> bool" where
  "all_ws s \<longleftrightarrow> (\<forall>c \<in> set s. is_ws c)"

text \<open>\<open>str.upper\<close> on ASCII letters.\<close>

definition upper_char :: "char \<Rightarrow> char" where
  "upper_char c =
     (let n = (of_char c :: nat) in if 97 \<le> n \<and> n \<le> 122 then char_of (n - 32) else c)"

definition upper :: "string \<Rightarrow> string" where
  "upper s = map upper_char s"

text \<open>\<open>sep.join(xs)\<close>.\<close>

fun join :: "string \<Rightarrow> string list \<Rightarrow> string" where
  "join sep [] = []"
| "join sep [x] = x"
| "join sep (x # y # xs) = x @ sep @ join sep (y # xs)"

subsection \<open>Indentation and fixed text\<close>

definition nl :: string where "nl = ''\<newline>''"

definition I1 :: string where "I1 = replicate 4 CHR '' ''"
definition I2 :: string where "I2 = I1 @ I1"
definition I3 :: string where "I3 = I1 @ I2"

subsection \<open>Sequencing results\<close>

text \<open>Running a list of fallible steps, stopping at the first exception.\<close>

fun seq_results :: "'a result list \<Rightarrow> 'a list result" where
  "seq_results [] = Inr []"
| "seq_results (r # rs) =
     (case r of
        Inl e \<Rightarrow> Inl e
      | Inr x \<Rightarrow> (case seq_results rs of Inl e \<Rightarrow> Inl e | Inr xs \<Rightarrow> Inr (x # xs)))"

lemma is_ws_code [code]:
  "is_ws c \<longleftrightarrow> (let n = (of_char c :: nat) in (9 \<le> n \<and> n \<le> 13) \<or> (28 \<le> n \<and> n \<le> 32))"
  by (auto simp: is_ws_def Let_def)

lemma not_ws_parens [simp]:
  "\<not> is_ws CHR ''(''" "\<not> is_ws CHR '')''"
  by (simp_all add: is_ws_def)

lemma ws_space [simp]: "is_ws CHR '' ''"
  by (simp add: is_ws_def)

lemma all_ws_simps [simp]:
  "all_ws []"
  "all_ws (c # s) \<longleftrightarrow> is_ws c \<and> all_ws s"
  "all_ws (s @ t) \<longleftrightarrow> all_ws s \<and> all_ws t"
  by (auto simp: all_ws_def)

lemma all_ws_takeWhile [simp]: "all_ws (takeWhile is_ws s)"
  by (auto simp: all_ws_def dest: set_takeWhileD)

lemma dropWhile_ws_append:
  "all_ws w \<Longrightarrow> dropWhile is_ws (w @ s) = dropWhile is_ws s"
  by (induction w) auto

lemma takeWhile_ws_append:
  "all_ws w \<Longrightarrow> takeWhile is_ws (w @ s) = w @ takeWhile is_ws s"
  by (induction w) auto

lemma join_Cons [text_simps]:
  "join sep (x # xs) = (if xs = [] then x else x @ sep @ join sep xs)"
  by (cases xs) auto

lemma join_empty_iff:
  "join sep xs = [] \<longleftrightarrow> (\<forall>x \<in> set xs. x = []) \<and> (sep = [] \<or> length xs \<le> 1)"
  by (induction sep xs rule: join.induct) auto

lemma indent_lengths [simp]: "length I1 = 4" "length I2 = 8" "length I3 = 12"
  by (simp_all add: I1_def I2_def I3_def)

subsection \<open>Association lists as Python dictionaries\<close>

text \<open>
  A Python \<open>dict\<close> whose iteration order matters (the descriptor store, iterated by
  \<open>apidat.keys()\<close>) is an association list; its lookup is \<open>map_of\<close>.
\<close>

lemma key_in_keys [intro]: "(k, v) \<in> set xs \<Longrightarrow> k \<in> fst ` set xs"
  by force

lemma seq_results_Inr_iff:
  "(\<exists>xs. seq_results rs = Inr xs) \<longleftrightarrow> (\<forall>r \<in> set rs. \<not> isl r)"
  by (induction rs) (auto split: sum.splits)

lemma seq_results_Inr:
  "seq_results rs = Inr xs \<Longrightarrow> rs = map Inr xs"
  by (induction rs arbitrary: xs) (auto split: sum.splits)

lemma seq_results_snoc:
  "seq_results xs = Inr rs \<Longrightarrow> seq_results (xs @ [Inr r]) = Inr (rs @ [r])"
  by (induction xs arbitrary: rs) (auto split: sum.splits)

end
