(* ===== verification/Parmat.thy ===== *)
theory Parmat
  imports Prelude
begin
text \<open>
  The array-marker pattern of the script (line 41):
  \<^verbatim>\<open>PARMAT = re.compile('\s*\(\s*\)\s*')\<close>
  and the two ways the script uses it (lines 155--156): \<open>PARMAT.search(p)\<close> and
  \<open>PARMAT.sub('', p)\<close>. The pattern is matched at a position by \<open>parmat_match\<close>,
  which returns the length of the match. The regex engine's greedy \<open>\s*\<close> with
  backtracking has only one successful outcome here (a whitespace character is never
  \<open>(\<close> or \<open>)\<close>), so the match at a position is the maximal one.
  \<open>parmat_search\<close> tries every position; \<open>parmat_sub\<close> is \<open>re.sub\<close>: it scans
  left to right, deletes each leftmost match and resumes after it.
\<close>

definition parmat_match :: "string \<Rightarrow> nat option" where
  "parmat_match s =
     (let w1 = takeWhile is_ws s in
      case dropWhile is_ws s of
        [] \<Rightarrow> None
      | c # r \<Rightarrow>
          if c \<noteq> CHR ''('' then None
          else
            (let w2 = takeWhile is_ws r in
             case dropWhile is_ws r of
               [] \<Rightarrow> None
             | d # r' \<Rightarrow>
                 if d \<noteq> CHR '')'' then None
                 else Some (length w1 + 1 + length w2 + 1 + length (takeWhile is_ws r'))))"

fun parmat_search :: "string \<Rightarrow> bool" where
  "parmat_search [] = False"
| "parmat_search (c # cs) = (parmat_match (c # cs) \<noteq> None \<or> parmat_search cs)"

function parmat_sub :: "string \<Rightarrow> string" where
  "parmat_sub [] = []"
| "parmat_sub (c # cs) =
     (case parmat_match (c # cs) of
        None \<Rightarrow> c # parmat_sub cs
      | Some n \<Rightarrow> parmat_sub (drop n (c # cs)))"
  by pat_completeness auto
termination
proof (relation "measure length")
  fix c cs n
  assume "parmat_match (c # cs) = Some n"
  then have "2 \<le> n" by (auto simp: parmat_match_def Let_def split: list.splits if_splits)
  then show "(drop n (c # cs), c # cs) \<in> measure length" by simp
qed auto

text \<open>Only whitespace and parentheses are ever deleted.\<close>

definition name_char :: "char \<Rightarrow> bool" where
  "name_char c \<longleftrightarrow> \<not> is_ws c \<and> c \<noteq> CHR ''('' \<and> c \<noteq> CHR '')''"

text \<open>Python's \<open>str.rstrip()\<close>, the result the spec expects for a trailing marker.\<close>

definition rstrip :: "string \<Rightarrow> string" where
  "rstrip s = rev (dropWhile is_ws (rev s))"

subsection \<open>What a match is\<close>

lemma parmat_match_app:
  assumes "all_ws w1" "all_ws w2" "all_ws w3" "r = [] \<or> \<not> is_ws (hd r)"
  shows "parmat_match (w1 @ CHR ''('' # w2 @ CHR '')'' # w3 @ r) =
           Some (length w1 + length w2 + length w3 + 2)"
proof -
  have tw3: "takeWhile is_ws (w3 @ r) = w3"
    using assms(3,4) by (cases r) (auto simp: takeWhile_ws_append all_ws_def)
  show ?thesis
    using assms(1,2,3)
    by (simp add: parmat_match_def takeWhile_ws_append dropWhile_ws_append tw3 Let_def)
qed

lemma parmat_match_SomeE:
  assumes "parmat_match s = Some n"
  obtains w1 w2 w3 r where "all_ws w1" "all_ws w2" "all_ws w3"
    "s = w1 @ CHR ''('' # w2 @ CHR '')'' # w3 @ r" "r = [] \<or> \<not> is_ws (hd r)"
    "n = length w1 + length w2 + length w3 + 2"
proof -
  obtain r1 where d1: "dropWhile is_ws s = CHR ''('' # r1"
    using assms by (auto simp: parmat_match_def Let_def split: list.splits if_splits)
  obtain r2 where d2: "dropWhile is_ws r1 = CHR '')'' # r2"
    using assms d1 by (auto simp: parmat_match_def Let_def split: list.splits if_splits)
  have n: "n = length (takeWhile is_ws s) + length (takeWhile is_ws r1)
               + length (takeWhile is_ws r2) + 2"
    using assms d1 d2 by (simp add: parmat_match_def Let_def)
  have s: "s = takeWhile is_ws s @ CHR ''('' # takeWhile is_ws r1 @ CHR '')'' #
               takeWhile is_ws r2 @ dropWhile is_ws r2"
    by (metis d1 d2 takeWhile_dropWhile_id)
  have hd: "dropWhile is_ws r2 = [] \<or> \<not> is_ws (hd (dropWhile is_ws r2))"
    using hd_dropWhile by blast
  show ?thesis
    using that [OF all_ws_takeWhile all_ws_takeWhile all_ws_takeWhile s hd] n by simp
qed

lemma parmat_match_bounds:
  "parmat_match s = Some n \<Longrightarrow> 2 \<le> n \<and> n \<le> length s"
  by (erule parmat_match_SomeE) auto

lemma parmat_match_take:
  assumes "parmat_match s = Some n"
  shows "\<exists>w1 w2 w3. all_ws w1 \<and> all_ws w2 \<and> all_ws w3 \<and>
           take n s = w1 @ CHR ''('' # w2 @ CHR '')'' # w3"
  using assms by (elim parmat_match_SomeE) auto

text \<open>A string that does not start with whitespace or \<open>(\<close> has no match at its start.\<close>

lemma parmat_match_no_open:
  assumes "\<not> all_ws s" "CHR ''('' \<notin> set s"
  shows "parmat_match (s @ t) = None"
proof -
  obtain x where x: "x \<in> set s" "\<not> is_ws x" using assms(1) by (auto simp: all_ws_def)
  then have dw: "dropWhile is_ws (s @ t) = dropWhile is_ws s @ t"
    by (rule dropWhile_append1)
  from x have ne: "dropWhile is_ws s \<noteq> []" by (auto simp: dropWhile_eq_Nil_conv)
  then obtain y ys where y: "dropWhile is_ws s = y # ys"
    by (cases "dropWhile is_ws s") auto
  then have "y \<in> set s" by (metis list.set_intros(1) set_dropWhileD)
  with assms(2) have "y \<noteq> CHR ''(''" by auto
  with y dw show ?thesis by (simp add: parmat_match_def Let_def)
qed

subsection \<open>Lemmas on the substitution\<close>

lemma parmat_sub_match:
  "parmat_match s = Some n \<Longrightarrow> parmat_sub s = parmat_sub (drop n s)"
  by (cases s) (auto simp: parmat_match_def)

lemma parmat_sub_no_match:
  "parmat_match (c # cs) = None \<Longrightarrow> parmat_sub (c # cs) = c # parmat_sub cs"
  by simp

lemma parmat_sub_length_le: "length (parmat_sub s) \<le> length s"
proof (induction s rule: parmat_sub.induct)
  case (2 c cs)
  then show ?case
    by (cases "parmat_match (c # cs)") (auto simp del: parmat_sub.simps
        simp: parmat_sub_no_match parmat_sub_match intro: le_trans)
qed simp

lemma name_chars_of_match:
  "parmat_match s = Some n \<Longrightarrow> filter name_char (take n s) = []"
  by (drule parmat_match_take) (auto simp: name_char_def all_ws_def filter_empty_conv)

lemma parmat_sub_id_aux: "\<not> parmat_search s \<Longrightarrow> parmat_sub s = s"
proof (induction s rule: parmat_sub.induct)
  case (2 c cs)
  then have "parmat_match (c # cs) = None" "\<not> parmat_search cs" by auto
  with "2.IH"(1) show ?case by simp
qed simp

lemma parmat_sub_shrinks_aux:
  "parmat_search s \<Longrightarrow> length (parmat_sub s) + 2 \<le> length s"
proof (induction s rule: parmat_sub.induct)
  case (2 c cs)
  show ?case
  proof (cases "parmat_match (c # cs)")
    case None
    with "2.prems" have "parmat_search cs" by simp
    with None "2.IH"(1) show ?thesis by simp
  next
    case (Some n)
    then have "2 \<le> n" "n \<le> length (c # cs)" by (auto dest: parmat_match_bounds)
    moreover have "length (parmat_sub (drop n (c # cs))) \<le> length (drop n (c # cs))"
      by (rule parmat_sub_length_le)
    ultimately show ?thesis using Some by (simp add: parmat_sub_match)
  qed
qed simp

text \<open>
  C18. Deleting the array marker never touches a character of the name proper: the
  characters other than whitespace and parentheses are those of the input, in order.
\<close>

lemma parmat_sub_keeps_name_chars:
  "filter name_char (parmat_sub s) = filter name_char s"
proof (induction s rule: parmat_sub.induct)
  case (2 c cs)
  show ?case
  proof (cases "parmat_match (c # cs)")
    case None
    with "2.IH"(1) show ?thesis by simp
  next
    case (Some n)
    have "filter name_char (c # cs) =
          filter name_char (take n (c # cs)) @ filter name_char (drop n (c # cs))"
      by (metis append_take_drop_id filter_append)
    with Some "2.IH"(2) show ?thesis
      by (simp add: parmat_sub_match name_chars_of_match del: parmat_sub.simps)
  qed
qed simp

lemma rstrip_all_ws: "all_ws s \<Longrightarrow> rstrip s = []"
  by (simp add: rstrip_def all_ws_def)

lemma rstrip_Cons: "\<not> all_ws (c # s) \<Longrightarrow> rstrip (c # s) = c # rstrip s"
proof (cases "all_ws s")
  case True
  assume "\<not> all_ws (c # s)"
  with True have "\<not> is_ws c" by simp
  moreover from True have "dropWhile is_ws (rev s) = []" by (simp add: all_ws_def)
  ultimately show ?thesis
    by (simp add: rstrip_def dropWhile_append3)
next
  case False
  then obtain x where "x \<in> set (rev s)" "\<not> is_ws x" by (auto simp: all_ws_def)
  then show ?thesis by (simp add: rstrip_def dropWhile_append1)
qed

text \<open>
  C20. A name without an opening parenthesis followed by an empty-parenthesis marker
  (whitespace allowed around and inside it, as in \<open>coords()\<close> or
  \<open>coords ( )\<close>) is normalised to the name with trailing whitespace removed.
\<close>

lemma parmat_sub_strips_marker:
  assumes "CHR ''('' \<notin> set n" "all_ws w1" "all_ws w2" "all_ws w3"
  shows "parmat_sub (n @ w1 @ CHR ''('' # w2 @ CHR '')'' # w3) = rstrip n"
  using assms(1)
proof (induction n)
  case Nil
  from assms(2-4) have "parmat_match (w1 @ CHR ''('' # w2 @ CHR '')'' # w3 @ []) =
      Some (length w1 + length w2 + length w3 + 2)"
    by (intro parmat_match_app) auto
  then show ?case
    by (simp add: parmat_sub_match rstrip_def)
next
  case (Cons c n')
  show ?case
  proof (cases "all_ws (c # n')")
    case True
    with assms(2-4) have "parmat_match (((c # n') @ w1) @ CHR ''('' # w2 @ CHR '')'' # w3 @ []) =
      Some (length ((c # n') @ w1) + length w2 + length w3 + 2)"
      by (intro parmat_match_app) auto
    with True show ?thesis
      by (simp add: parmat_sub_match rstrip_all_ws)
  next
    case False
    with Cons.prems have "parmat_match ((c # n') @ w1 @ CHR ''('' # w2 @ CHR '')'' # w3) = None"
      by (intro parmat_match_no_open) auto
    with False Cons show ?thesis by (simp add: rstrip_Cons)
  qed
qed

text \<open>
  C17. \<open>parmat_match\<close> implements the regular expression \<open>\s*\(\s*\)\s*\<close>
  matched at the start of a string: it succeeds exactly on strings that begin with
  whitespace, \<open>(\<close>, whitespace, \<open>)\<close>, whitespace, and the match is the greedy one
  (it stops only at the end or before a non-whitespace character).
\<close>

theorem parmat_match_iff:
  "parmat_match s = Some n \<longleftrightarrow>
     (\<exists>w1 w2 w3 r. all_ws w1 \<and> all_ws w2 \<and> all_ws w3 \<and>
        s = w1 @ CHR ''('' # w2 @ CHR '')'' # w3 @ r \<and> (r = [] \<or> \<not> is_ws (hd r)) \<and>
        n = length w1 + length w2 + length w3 + 2)"
proof
  assume "parmat_match s = Some n"
  then show "\<exists>w1 w2 w3 r. all_ws w1 \<and> all_ws w2 \<and> all_ws w3 \<and>
        s = w1 @ CHR ''('' # w2 @ CHR '')'' # w3 @ r \<and> (r = [] \<or> \<not> is_ws (hd r)) \<and>
        n = length w1 + length w2 + length w3 + 2"
    by (elim parmat_match_SomeE) blast
next
  assume "\<exists>w1 w2 w3 r. all_ws w1 \<and> all_ws w2 \<and> all_ws w3 \<and>
        s = w1 @ CHR ''('' # w2 @ CHR '')'' # w3 @ r \<and> (r = [] \<or> \<not> is_ws (hd r)) \<and>
        n = length w1 + length w2 + length w3 + 2"
  then obtain w1 w2 w3 r where "all_ws w1" "all_ws w2" "all_ws w3"
    "s = w1 @ CHR ''('' # w2 @ CHR '')'' # w3 @ r" "r = [] \<or> \<not> is_ws (hd r)"
    "n = length w1 + length w2 + length w3 + 2"
    by blast
  then show "parmat_match s = Some n" using parmat_match_app [of w1 w2 w3 r] by simp
qed

theorem parmat_match_iff_witness:
  "parmat_match (CHR ''('' # CHR '')'' # ''x'') = Some 2"
proof -
  have "all_ws [] \<and> all_ws [] \<and> all_ws [] \<and>
        CHR ''('' # CHR '')'' # ''x'' = [] @ CHR ''('' # [] @ CHR '')'' # [] @ ''x'' \<and>
        (''x'' = [] \<or> \<not> is_ws (hd ''x'')) \<and> (2::nat) = length [] + length [] + length [] + 2"
    by (simp add: is_ws_def)
  then show ?thesis using parmat_match_iff [of "CHR ''('' # CHR '')'' # ''x''" 2] by blast
qed

text \<open>
  C19. Substitution never lengthens a name, and a name with a marker loses at least
  the two parentheses.
\<close>

theorem parmat_sub_length:
  "length (parmat_sub s) \<le> length s \<and>
   (parmat_search s \<longrightarrow> length (parmat_sub s) + 2 \<le> length s)"
  using parmat_sub_length_le [of s] parmat_sub_shrinks_aux [of s] by simp

theorem parmat_sub_length_witness:
  "parmat_search ''a()'' \<and> length (parmat_sub ''a()'') + 2 \<le> length ''a()''"
proof -
  have m: "parmat_search ''a()''" by (simp add: parmat_match_def is_ws_def)
  with parmat_sub_length [of "''a()''"] show ?thesis by blast
qed

theorem parmat_sub_strips_marker_witness:
  "parmat_sub (''coords'' @ '' '' @ CHR ''('' # '' '' @ CHR '')'' # []) = ''coords''"
proof -
  have "CHR ''('' \<notin> set ''coords''" "all_ws '' ''" "all_ws []" by (simp_all add: is_ws_def)
  from parmat_sub_strips_marker [OF this(1,2,2,3)] show ?thesis
    by (simp add: rstrip_def is_ws_def)
qed

lemma parmat_search_append: "parmat_search ys \<Longrightarrow> parmat_search (xs @ ys)"
  by (induction xs) (auto simp: parmat_search.simps(2) [of _ "_ @ ys"] neq_Nil_conv)

lemma parmat_sub_closing: "parmat_sub (replicate k CHR '')'') = replicate k CHR '')''"
proof (rule parmat_sub_id_aux)
  show "\<not> parmat_search (replicate k CHR '')'')"
    by (induction k) (simp_all add: parmat_match_def)
qed

lemma parmat_sub_nested_aux:
  "parmat_sub (replicate j CHR ''('' @ ''()'' @ replicate k CHR '')'') =
     replicate j CHR ''('' @ replicate k CHR '')''"
proof (induction j)
  case 0
  have "parmat_match (''()'' @ replicate k CHR '')'') = Some 2"
    by (cases k) (simp_all add: parmat_match_def)
  then show ?case by (simp add: parmat_sub_match parmat_sub_closing del: parmat_sub.simps)
next
  case (Suc j)
  have "parmat_match (CHR ''('' # replicate j CHR ''('' @ ''()'' @ replicate k CHR '')'') = None"
    by (cases j) (simp_all add: parmat_match_def)
  with Suc.IH show ?case by simp
qed

text \<open>
  C21. The substitution is a single left-to-right pass: a marker nested to any depth
  \<open>k + 1\<close>, \<open>((\<dots>()\<dots>))\<close>, loses only its innermost \<open>()\<close> and is left nested to depth
  \<open>k\<close>, which \<open>PARMAT.search\<close> still finds whenever the depth was at least two, so a
  normalised name need not be free of markers.
\<close>

theorem parmat_sub_one_pass:
  "parmat_sub (replicate (Suc k) CHR ''('' @ replicate (Suc k) CHR '')'') =
     replicate k CHR ''('' @ replicate k CHR '')'' \<and>
   parmat_search (replicate k CHR ''('' @ replicate k CHR '')'') = (0 < k)"
proof -
  have split: "replicate (Suc j) CHR ''('' @ replicate (Suc j) CHR '')'' =
      replicate j CHR ''('' @ ''()'' @ replicate j CHR '')''" for j
    by (simp add: replicate_app_Cons_same)
  have "parmat_search (replicate k CHR ''('' @ replicate k CHR '')'') = (0 < k)"
  proof (cases k)
    case (Suc j)
    have "parmat_search (''()'' @ replicate j CHR '')'')"
      by (cases j) (simp_all add: parmat_match_def)
    with Suc show ?thesis by (simp only: split) (simp add: parmat_search_append)
  qed simp
  with parmat_sub_nested_aux [of k k] show ?thesis by (simp only: split)
qed

end
