(* ===== verification/Descriptor.thy ===== *)
theory Descriptor
  imports Prelude
begin

text \<open>
  The inputs of the generator as \<open>main()\<close> of \<open>src/pyfred/script03_apiwrapgen.py\<close>
  reads them (lines 105--112): the descriptor store \<open>apidat\<close>, a dictionary from
  command names to entries with the keys \<open>cmdtype\<close>, \<open>descr\<close>, \<open>returns\<close> and
  \<open>sig\<close>, and the documentation store \<open>docdat\<close>, a dictionary from command names
  to ordered heading/text dictionaries. The kind of a command is a string in the YAML
  file; the script compares it with \<open>'unknown'\<close>, \<open>'function'\<close>,
  \<open>'subroutine'\<close> and \<open>'datastruct'\<close>, so the model has one constructor per
  compared value and \<open>Other\<close> for any other string.
\<close>

datatype cmdtype = Function | Subroutine | Datastruct | Unknown | Other string

text \<open>The string the YAML file holds for a kind (what \<open>cmdtype.upper()\<close> is applied to).\<close>

fun cmdtype_str :: "cmdtype \<Rightarrow> string" where
  "cmdtype_str Function = ''function''"
| "cmdtype_str Subroutine = ''subroutine''"
| "cmdtype_str Datastruct = ''datastruct''"
| "cmdtype_str Unknown = ''unknown''"
| "cmdtype_str (Other s) = s"

text \<open>
  One entry of \<open>apidat\<close>. \<open>returns\<close> is the YAML list: empty, or
  \<open>[name, type]\<close>; \<open>sig\<close> is the ordered list of \<open>(name, type)\<close> pairs.
\<close>

record api_entry =
  cmdtype :: cmdtype
  descr :: string
  returns :: "string list"
  sig :: "(string \<times> string) list"

text \<open>
  \<open>apidat\<close> is iterated in its key order (\<open>cmdnames = apidat.keys()\<close>), so it is
  an association list; \<open>docdat\<close> is only looked up, so it is a map. A documentation
  block is the ordered list of its (heading, text) pairs.
\<close>

type_synonym apidat = "(string \<times> api_entry) list"
type_synonym docblock = "(string \<times> string) list"
type_synonym docdat = "string \<rightharpoonup> docblock"

end
