(* ===== verification/Normalizer.thy ===== *)
theory Normalizer
  imports Parmat Descriptor
begin
text \<open>
  The descriptor normalizer of \<open>main()\<close>: the loop of lines 153--160 that builds
  the dictionaries \<open>newparams\<close> (normalised name of each raw parameter name) and
  \<open>annots\<close> (array annotation of each raw name), the insertion of the receiver
  \<open>self\<close> (lines 207--208), the list comprehension \<open>paramlist\<close> (line 209) and the
  argument list with its default policy (lines 212--217).
\<close>

definition array_annot :: string where
  "array_annot = ''Array-like of ''"

fun normalize_params ::
  "string list \<Rightarrow> (string \<rightharpoonup> string) \<Rightarrow> (string \<rightharpoonup> string) \<Rightarrow>
   (string \<rightharpoonup> string) \<times> (string \<rightharpoonup> string)" where
  "normalize_params [] newparams annots = (newparams, annots)"
| "normalize_params (p # ps) newparams annots =
     (if parmat_search p
      then normalize_params ps (newparams(p \<mapsto> parmat_sub p)) (annots(p \<mapsto> array_annot))
      else normalize_params ps (newparams(p \<mapsto> p)) (annots(p \<mapsto> '''')))"

text \<open>\<open>[d[k] for k in ks]\<close>: the first missing key raises \<open>KeyError\<close>.\<close>

fun lookup_all :: "(string \<rightharpoonup> 'v) \<Rightarrow> string list \<Rightarrow> 'v list result" where
  "lookup_all d [] = Inr []"
| "lookup_all d (k # ks) =
     (case d k of
        None \<Rightarrow> Inl (KeyError k)
      | Some v \<Rightarrow> (case lookup_all d ks of Inl e \<Rightarrow> Inl e | Inr vs \<Rightarrow> Inr (v # vs)))"

text \<open>
  The normalised parameter data of one command: \<open>newparams\<close> after
  \<open>newparams['self'] = "self"\<close>, \<open>annots\<close>, and \<open>paramlist\<close>.
\<close>

definition newparams_of :: "(string \<times> string) list \<Rightarrow> string \<rightharpoonup> string" where
  "newparams_of sigitems =
     (fst (normalize_params (map fst sigitems) Map.empty Map.empty))(''self'' \<mapsto> ''self'')"

definition annots_of :: "(string \<times> string) list \<Rightarrow> string \<rightharpoonup> string" where
  "annots_of sigitems = snd (normalize_params (map fst sigitems) Map.empty Map.empty)"

definition paramlist_of :: "(string \<times> string) list \<Rightarrow> string list result" where
  "paramlist_of sigitems = lookup_all (newparams_of sigitems) (''self'' # map fst sigitems)"

text \<open>Lines 212--217: a \<open>=None\<close> default on every name but \<open>self\<close> of a datastruct.\<close>

definition arglist :: "cmdtype \<Rightarrow> string list \<Rightarrow> string list" where
  "arglist ct paramlist =
     map (\<lambda>li. if ct = Datastruct \<and> li \<noteq> ''self'' then li @ ''=None'' else li) paramlist"

subsection \<open>The dictionaries hold what the loop put there\<close>

definition annot_of_name :: "string \<Rightarrow> string" where
  "annot_of_name p = (if parmat_search p then array_annot else '''')"

lemma normalize_params_lookup:
  "fst (normalize_params ps np an) p = (if p \<in> set ps then Some (parmat_sub p) else np p) \<and>
   snd (normalize_params ps np an) p = (if p \<in> set ps then Some (annot_of_name p) else an p)"
  by (induction ps arbitrary: np an)
    (auto simp: parmat_sub_id_aux annot_of_name_def)

lemma lookup_all_Some:
  "(\<forall>k \<in> set ks. d k \<noteq> None) \<Longrightarrow> lookup_all d ks = Inr (map (\<lambda>k. the (d k)) ks)"
  by (induction ks) auto

lemma lookup_all_KeyError:
  "lookup_all d ks = Inl e \<Longrightarrow> \<exists>k \<in> set ks. d k = None \<and> e = KeyError k"
  by (induction ks) (auto split: option.splits sum.splits)

lemma newparams_of_lookup:
  "newparams_of sigitems p =
     (if p = ''self'' then Some ''self''
      else if p \<in> fst ` set sigitems then Some (parmat_sub p) else None)"
  by (simp add: newparams_of_def normalize_params_lookup)

lemma annots_of_lookup:
  "annots_of sigitems p = (if p \<in> fst ` set sigitems then Some (annot_of_name p) else None)"
  by (simp add: annots_of_def normalize_params_lookup)

lemma self_not_marked [simp]: "\<not> parmat_search ''self''"
  by code_simp

lemma parmat_sub_self [simp]: "parmat_sub ''self'' = ''self''"
  using self_not_marked by (rule parmat_sub_id_aux)

lemma paramlist_of_eq:
  "paramlist_of sigitems = Inr (''self'' # map (\<lambda>(p, t). parmat_sub p) sigitems)"
proof -
  have "\<forall>k \<in> set (''self'' # map fst sigitems). newparams_of sigitems k \<noteq> None"
    by (auto simp: newparams_of_lookup)
  then have "paramlist_of sigitems =
      Inr (map (\<lambda>k. the (newparams_of sigitems k)) (''self'' # map fst sigitems))"
    by (simp add: paramlist_of_def lookup_all_Some del: lookup_all.simps)
  also have "\<dots> = Inr (''self'' # map (\<lambda>(p, t). parmat_sub p) sigitems)"
    by (auto simp: newparams_of_lookup simp del: parmat_sub.simps)
  finally show ?thesis .
qed

lemma arglist_Datastruct:
  "arglist Datastruct ps = map (\<lambda>li. if li = ''self'' then li else li @ ''=None'') ps"
  by (simp add: arglist_def)

lemma arglist_not_Datastruct: "ct \<noteq> Datastruct \<Longrightarrow> arglist ct ps = ps"
  by (simp add: arglist_def)

subsection \<open>Properties of the normalizer\<close>

text \<open>
  C16. The loop of lines 153--160, run from empty dictionaries, leaves in
  \<open>newparams\<close> exactly the raw names, each mapped to its stripped form, and in
  \<open>annots\<close> the same keys, each mapped to \<open>'Array-like of '\<close> when the name carries
  the marker and to the empty string otherwise.
\<close>

theorem normalize_params_dicts:
  "fst (normalize_params ps Map.empty Map.empty) =
     (\<lambda>p. if p \<in> set ps then Some (parmat_sub p) else None) \<and>
   snd (normalize_params ps Map.empty Map.empty) =
     (\<lambda>p. if p \<in> set ps then Some (if parmat_search p then array_annot else '''') else None)"
  by (simp add: fun_eq_iff normalize_params_lookup annot_of_name_def)

text \<open>
  C14. Every non-receiver argument of a datastruct wrapper gets the \<open>=None\<close> default
  exactly when no normalised parameter name is \<open>self\<close>: the test
  \<open>li != "self"\<close> of line 214 also drops the default of a parameter named
  \<open>self\<close> or \<open>self()\<close>.
\<close>

theorem arglist_datastruct_defaults:
  "arglist Datastruct (''self'' # ns) = ''self'' # map (\<lambda>n. n @ ''=None'') ns \<longleftrightarrow>
     ''self'' \<notin> set ns"
proof
  assume eq: "arglist Datastruct (''self'' # ns) = ''self'' # map (\<lambda>n. n @ ''=None'') ns"
  show "''self'' \<notin> set ns"
  proof
    assume "''self'' \<in> set ns"
    moreover from eq have "\<forall>n \<in> set ns. (if n = ''self'' then n else n @ ''=None'') = n @ ''=None''"
      by (simp add: arglist_Datastruct)
    ultimately show False by fastforce
  qed
qed (auto simp: arglist_Datastruct)

theorem arglist_datastruct_defaults_witness:
  "paramlist_of [(''self()'', ''Long'')] = Inr [''self'', ''self''] \<and>
   arglist Datastruct [''self'', ''self''] \<noteq> ''self'' # map (\<lambda>n. n @ ''=None'') [''self'']"
proof -
  have "parmat_sub ''self()'' = ''self''" by code_simp
  then have "paramlist_of [(''self()'', ''Long'')] = Inr [''self'', ''self'']"
    by (simp add: paramlist_of_eq)
  moreover have "\<not> ''self'' \<notin> set [''self'']" by simp
  ultimately show ?thesis using arglist_datastruct_defaults [of "[''self'']"] by simp
qed

end
