(* ===== verification/Returns.thy ===== *)
theory Returns
  imports Descriptor
begin
text \<open>
  The signature composer: lines 163--205 of \<open>main()\<close>, which build the
  \<open>Returns\<close> section \<open>retstr\<close> of a wrapper's docstring from the command kind,
  the signature and the \<open>returns\<close> entry. The type translation
  \<open>utils.vb2pytype(t, rettype='repr')\<close> lives outside \<open>src/\<close>; it is a parameter
  \<open>ty\<close> here, so every lemma holds for any translation.
\<close>

definition rethdg :: string where
  "rethdg = nl @ I2 @ ''Returns'' @ nl @ I2 @ ''-------'' @ nl"

text \<open>Tuple unpacking \<open>a, b = xs\<close> of a list: \<open>ValueError\<close> unless it has two items.\<close>

fun unpack2 :: "string list \<Rightarrow> (string \<times> string) result" where
  "unpack2 [a, b] = Inr (a, b)"
| "unpack2 _ = Inl ValueError"

text \<open>Lines 193--196: \<open>for rn, rt in sigits: rstr.append('{}: {}'.format(...))\<close>.\<close>

fun format_items :: "(string \<Rightarrow> string) \<Rightarrow> string list list \<Rightarrow> string list result" where
  "format_items ty [] = Inr []"
| "format_items ty (x # xs) =
     (case unpack2 x of
        Inl e \<Rightarrow> Inl e
      | Inr (rn, rt) \<Rightarrow>
          (case format_items ty xs of
             Inl e \<Rightarrow> Inl e
           | Inr rs \<Rightarrow> Inr ((rn @ '': '' @ ty rt) # rs)))"

definition retstr ::
  "(string \<Rightarrow> string) \<Rightarrow> cmdtype \<Rightarrow> string \<Rightarrow> (string \<times> string) list \<Rightarrow> string list \<Rightarrow>
   string result" where
  "retstr ty ct cmdname sigitems rlist =
     (case ct of
        Function \<Rightarrow>
          (if rlist \<noteq> [] then
             (case unpack2 rlist of
                Inl e \<Rightarrow> Inl e
              | Inr (rname, rtype) \<Rightarrow> Inr (rethdg @ I2 @ rname @ '': '' @ ty rtype @ nl))
           else Inr [])
      | Subroutine \<Rightarrow>
          (if 0 < length sigitems \<or> 0 < length rlist then
             (let sigits = (if 0 < length rlist then [rlist] else []) @
                           map (\<lambda>(n, t). [n, t]) sigitems
              in case format_items ty sigits of
                   Inl e \<Rightarrow> Inl e
                 | Inr rstr \<Rightarrow>
                     Inr (rethdg @ I2 @ (if length sigits > 1 then ''['' else []) @
                          join '', '' rstr @ (if length sigits > 1 then '']'' else []) @ nl))
           else Inr [])
      | Datastruct \<Rightarrow> Inr (rethdg @ I2 @ ''datastruct: <com_record '' @ cmdname @ ''>'' @ nl)
      | Unknown \<Rightarrow> Inr []
      | Other s \<Rightarrow> Inr [])"

subsection \<open>The composition rule, stated abstractly\<close>

text \<open>
  What the spec (section 4.2) asks of the composer, as a shape: no return section,
  one \<open>name: type\<close> pair, an ordered bracketed list of pairs, or the record tag
  of a datastruct. A well-formed \<open>returns\<close> entry is empty or one pair.
\<close>

datatype ret_shape =
  NoReturn | Single string string | Many "(string \<times> string) list" | Record string

definition wf_returns :: "string list \<Rightarrow> bool" where
  "wf_returns rlist \<longleftrightarrow> length rlist = 0 \<or> length rlist = 2"

fun ret_abs :: "string list \<Rightarrow> (string \<times> string) list" where
  "ret_abs [a, b] = [(a, b)]"
| "ret_abs _ = []"

fun compose_ret ::
  "cmdtype \<Rightarrow> string \<Rightarrow> (string \<times> string) list \<Rightarrow> (string \<times> string) list \<Rightarrow> ret_shape" where
  "compose_ret Function name sigitems r =
     (case r of [] \<Rightarrow> NoReturn | (n, t) # _ \<Rightarrow> Single n t)"
| "compose_ret Subroutine name sigitems r =
     (case r @ sigitems of [] \<Rightarrow> NoReturn | [(n, t)] \<Rightarrow> Single n t | xs \<Rightarrow> Many xs)"
| "compose_ret Datastruct name sigitems r = Record name"
| "compose_ret Unknown name sigitems r = NoReturn"
| "compose_ret (Other s) name sigitems r = NoReturn"

fun render_ret :: "(string \<Rightarrow> string) \<Rightarrow> ret_shape \<Rightarrow> string" where
  "render_ret ty NoReturn = []"
| "render_ret ty (Single n t) = rethdg @ I2 @ n @ '': '' @ ty t @ nl"
| "render_ret ty (Many xs) =
     rethdg @ I2 @ ''['' @ join '', '' (map (\<lambda>(n, t). n @ '': '' @ ty t) xs) @ '']'' @ nl"
| "render_ret ty (Record name) =
     rethdg @ I2 @ ''datastruct: <com_record '' @ name @ ''>'' @ nl"

lemma format_items_pairs:
  "format_items ty (map (\<lambda>(n, t). [n, t]) xs) = Inr (map (\<lambda>(n, t). n @ '': '' @ ty t) xs)"
  by (induction xs) auto

lemma wf_returns_cases:
  assumes "wf_returns rlist"
  obtains "rlist = []" | a b where "rlist = [a, b]"
  using assms by (auto simp: wf_returns_def length_Suc_conv numeral_2_eq_2)

lemma sigits_eq:
  assumes "wf_returns rlist"
  shows "(if 0 < length rlist then [rlist] else []) @ map (\<lambda>(n, t). [n, t]) sigitems =
         map (\<lambda>(n, t). [n, t]) (ret_abs rlist @ sigitems)"
  using assms by (elim wf_returns_cases) auto

lemma sigits_nonempty:
  assumes "wf_returns rlist"
  shows "(0 < length sigitems \<or> 0 < length rlist) \<longleftrightarrow> ret_abs rlist @ sigitems \<noteq> []"
  using assms by (elim wf_returns_cases) auto

lemma retstr_Subroutine_wf:
  assumes "wf_returns rlist"
  shows "retstr ty Subroutine cmdname sigitems rlist =
     (let xs = ret_abs rlist @ sigitems in
      if xs = [] then Inr []
      else Inr (rethdg @ I2 @ (if length xs > 1 then ''['' else []) @
                join '', '' (map (\<lambda>(n, t). n @ '': '' @ ty t) xs) @
                (if length xs > 1 then '']'' else []) @ nl))"
proof -
  have "length ((if 0 < length rlist then [rlist] else []) @ map (\<lambda>(n, t). [n, t]) sigitems)
        = length (ret_abs rlist @ sigitems)"
    by (simp only: sigits_eq [OF assms] length_map)
  then show ?thesis
    by (simp only: retstr_def cmdtype.case sigits_nonempty [OF assms] sigits_eq [OF assms]
        format_items_pairs Let_def sum.case if_not_P if_P) auto
qed

lemma retstr_refines_aux:
  assumes "wf_returns rlist"
  shows "retstr ty ct cmdname sigitems rlist =
           Inr (render_ret ty (compose_ret ct cmdname sigitems (ret_abs rlist)))"
proof (cases ct)
  case Function
  with assms show ?thesis by (elim wf_returns_cases) (simp_all add: retstr_def)
next
  case Subroutine
  show ?thesis
  proof (cases "ret_abs rlist @ sigitems" rule: remdups_adj.cases)
    case 1
    with Subroutine show ?thesis by (simp add: retstr_Subroutine_wf [OF assms])
  next
    case (2 x)
    with Subroutine show ?thesis by (cases x) (simp add: retstr_Subroutine_wf [OF assms])
  next
    case (3 x y zs)
    with Subroutine show ?thesis
      by (cases x) (simp add: retstr_Subroutine_wf [OF assms])
  qed
qed (simp_all add: retstr_def)

lemma unpack2_ok: "unpack2 xs = Inr p \<longleftrightarrow> (\<exists>a b. xs = [a, b] \<and> p = (a, b))"
  by (cases xs rule: unpack2.cases) auto

lemma unpack2_error: "unpack2 xs = Inl err \<Longrightarrow> err = ValueError"
  by (cases xs rule: unpack2.cases) auto

lemma unpack2_wf: "xs \<noteq> [] \<Longrightarrow> (\<exists>p. unpack2 xs = Inr p) \<longleftrightarrow> wf_returns xs"
  by (auto simp: unpack2_ok wf_returns_def length_Suc_conv numeral_2_eq_2)

lemma retstr_error_aux:
  assumes "\<not> wf_returns rlist" "ct = Function \<or> ct = Subroutine"
  shows "retstr ty ct cmdname sigitems rlist = Inl ValueError"
proof -
  from assms(1) have ne: "rlist \<noteq> []" by (auto simp: wf_returns_def)
  with assms(1) have "unpack2 rlist = Inl ValueError"
    using unpack2_wf unpack2_error by (metis sum.exhaust)
  with ne assms(2) show ?thesis by (auto simp: retstr_def)
qed

lemma render_ret_empty_iff: "render_ret ty x = [] \<longleftrightarrow> x = NoReturn"
  by (cases x) (simp_all add: rethdg_def)

lemma ret_abs_empty_iff: "wf_returns rlist \<Longrightarrow> ret_abs rlist = [] \<longleftrightarrow> rlist = []"
  by (elim wf_returns_cases) auto

lemma compose_ret_NoReturn_iff:
  "compose_ret ct cmdname sigitems r = NoReturn \<longleftrightarrow>
     (ct = Function \<and> r = []) \<or> (ct = Subroutine \<and> r @ sigitems = []) \<or>
     ct = Unknown \<or> (\<exists>s. ct = Other s)"
proof (cases ct)
  case Subroutine
  then show ?thesis
    by (cases "r @ sigitems" rule: remdups_adj.cases) (auto split: prod.split)
qed (auto split: list.split prod.split)

lemma retstr_ok:
  "(\<exists>r. retstr ty ct cmdname sigitems rlist = Inr r) \<longleftrightarrow>
     ((ct = Function \<or> ct = Subroutine) \<longrightarrow> wf_returns rlist)"
proof (cases "wf_returns rlist")
  case True
  then show ?thesis by (simp add: retstr_refines_aux)
next
  case False
  then show ?thesis by (cases ct) (simp_all add: retstr_error_aux, simp_all add: retstr_def)
qed

subsection \<open>Properties of the composer\<close>

text \<open>
  C1. Refinement: for a well-formed \<open>returns\<close> entry (empty or one pair), the
  \<open>Returns\<close> section the script builds is the rendering of the composition rule of
  the spec: nothing, one \<open>name: type\<close> pair, a bracketed list (explicit return first,
  then the signature in order) or the record tag of a datastruct.
\<close>

theorem retstr_refines:
  assumes "wf_returns rlist"
  shows "retstr ty ct cmdname sigitems rlist =
           Inr (render_ret ty (compose_ret ct cmdname sigitems (ret_abs rlist)))"
  using assms by (rule retstr_refines_aux)

theorem retstr_refines_witness:
  "retstr (\<lambda>t. t) Subroutine ''GetTextPosition'' [(''x'', ''Long''), (''y'', ''Long'')]
     [''r'', ''Double''] =
   Inr (render_ret (\<lambda>t. t)
     (Many [(''r'', ''Double''), (''x'', ''Long''), (''y'', ''Long'')]))"
proof -
  have "wf_returns [''r'', ''Double'']" by (simp add: wf_returns_def)
  from retstr_refines [OF this, of "\<lambda>t. t" Subroutine "''GetTextPosition''"
      "[(''x'', ''Long''), (''y'', ''Long'')]"]
  show ?thesis by simp
qed

text \<open>
  C9. A function or subroutine whose \<open>returns\<close> entry is neither empty nor a pair
  makes the tuple unpacking raise \<open>ValueError\<close>.
\<close>

theorem retstr_malformed:
  assumes "\<not> wf_returns rlist" "ct = Function \<or> ct = Subroutine"
  shows "retstr ty ct cmdname sigitems rlist = Inl ValueError"
  using assms by (rule retstr_error_aux)

theorem retstr_malformed_witness:
  "retstr (\<lambda>t. t) Function ''F'' [] [''a'', ''b'', ''c''] = Inl ValueError"
proof -
  have "\<not> wf_returns [''a'', ''b'', ''c'']" by (simp add: wf_returns_def)
  then show ?thesis by (rule retstr_malformed) simp
qed

text \<open>
  C10. For a well-formed entry there is no \<open>Returns\<close> section exactly for a function
  with an empty \<open>returns\<close>, a subroutine with neither a return entry nor a
  parameter, and a command of any other kind than the three known ones.
\<close>

theorem retstr_none_iff:
  assumes "wf_returns rlist"
  shows "retstr ty ct cmdname sigitems rlist = Inr [] \<longleftrightarrow>
           (ct = Function \<and> rlist = []) \<or> (ct = Subroutine \<and> rlist = [] \<and> sigitems = []) \<or>
           ct = Unknown \<or> (\<exists>s. ct = Other s)"
  using assms
  by (simp add: retstr_refines_aux render_ret_empty_iff compose_ret_NoReturn_iff
      ret_abs_empty_iff)

theorem retstr_none_iff_witness:
  "retstr (\<lambda>t. t) Subroutine ''ARNDeleteAllNodes'' [] [] = Inr []"
proof -
  have "wf_returns []" by (simp add: wf_returns_def)
  from retstr_none_iff [OF this, of "\<lambda>t. t" Subroutine "''ARNDeleteAllNodes''" "[]"]
  show ?thesis by simp
qed

text \<open>
  C11. A subroutine that returns exactly one value (its return entry or its only
  parameter) gets the bare \<open>name: type\<close> pair, without brackets.
\<close>

theorem retstr_subroutine_single:
  assumes "wf_returns rlist" "ret_abs rlist @ sigitems = [(n, t)]"
  shows "retstr ty Subroutine cmdname sigitems rlist = Inr (rethdg @ I2 @ n @ '': '' @ ty t @ nl)"
  using assms by (simp add: retstr_Subroutine_wf)

theorem retstr_subroutine_single_witness:
  "retstr (\<lambda>t. if t = ''String'' then ''str'' else t) Subroutine ''SetUnits''
     [(''Units'', ''String'')] [] = Inr (rethdg @ I2 @ ''Units: str'' @ nl)"
proof -
  have "wf_returns []" "ret_abs [] @ [(''Units'', ''String'')] = [(''Units'', ''String'')]"
    by (simp_all add: wf_returns_def)
  from retstr_subroutine_single [OF this, of "\<lambda>t. if t = ''String'' then ''str'' else t"]
  show ?thesis by simp
qed

text \<open>
  C12. A subroutine that returns two or more values gets them as one bracketed,
  comma-separated list: the explicit return value first, then every signature
  parameter in its original order.
\<close>

theorem retstr_subroutine_list:
  assumes "wf_returns rlist" "2 \<le> length (ret_abs rlist @ sigitems)"
  shows "retstr ty Subroutine cmdname sigitems rlist =
           Inr (rethdg @ I2 @ ''['' @
                join '', '' (map (\<lambda>(n, t). n @ '': '' @ ty t) (ret_abs rlist @ sigitems)) @
                '']'' @ nl)"
  using assms by (auto simp: retstr_Subroutine_wf Let_def)

theorem retstr_subroutine_list_witness:
  "retstr (\<lambda>t. t) Subroutine ''GetEntity'' [(''id'', ''Long''), (''ent'', ''T_ENTITY'')] [] =
     Inr (rethdg @ I2 @ ''[id: Long, ent: T_ENTITY]'' @ nl)"
proof -
  have "wf_returns []" "2 \<le> length (ret_abs [] @ [(''id'', ''Long''), (''ent'', ''T_ENTITY'')])"
    by (simp_all add: wf_returns_def)
  from retstr_subroutine_list [OF this, of "\<lambda>t. t" "''GetEntity''"]
  show ?thesis by simp
qed

end
