(* ===== verification/Emitter.thy ===== *)
theory Emitter
  imports Normalizer Returns
begin
text \<open>
  The wrapper emitter: the text \<open>main()\<close> writes for one recognised command
  (lines 138--147 and 162 for the description and the documentation, 206--264 for the
  writes). The script's collaborators outside \<open>src/\<close> (\<open>utils.vb2pytype\<close>,
  \<open>utils.wrap_longlines\<close>, \<open>utils.fmt_docstr\<close>, \<open>glovars.STUBDIR\<close> and
  \<open>os.path.join\<close>) are the fields of a record \<open>collab\<close>, so every lemma here
  holds for any behaviour of them unless it names a hypothesis on them.
  \<open>wrap_longlines env text ncols indent\<close> takes \<open>None\<close> for the default width.
\<close>

record collab =
  vb2pytype :: "string \<Rightarrow> string"
  wrap_longlines :: "string \<Rightarrow> nat option \<Rightarrow> string \<Rightarrow> string"
  fmt_docstr :: "docblock \<Rightarrow> string \<Rightarrow> string"
  stubdir :: string
  path_join :: "string \<Rightarrow> string \<Rightarrow> string"

definition indent12 :: string where
  "indent12 = replicate 12 CHR '' ''"

text \<open>Lines 138--147.\<close>

definition descstr :: "collab \<Rightarrow> string \<Rightarrow> api_entry \<Rightarrow> string" where
  "descstr env cmdname e =
     ''Wrapper for FRED '' @ cmdname @ '' '' @ upper (cmdtype_str (cmdtype e)) @ ''.'' @ nl @
     (if cmdtype e = Datastruct
      then I2 @ ''Does not require all parameters to be set when invoked.'' @ nl
      else I2 @ ''Requires all parameters to be set when invoked.'' @ nl) @
     nl @ I2 @ wrap_longlines env (descr e) None I2"

text \<open>Lines 230--233: one documentation line per signature item.\<close>

fun param_doc :: "collab \<Rightarrow> (string \<rightharpoonup> string) \<Rightarrow> (string \<rightharpoonup> string) \<Rightarrow>
    (string \<times> string) list \<Rightarrow> string result" where
  "param_doc env np an [] = Inr []"
| "param_doc env np an ((par, typ) # rest) =
     (case np par of
        None \<Rightarrow> Inl (KeyError par)
      | Some n \<Rightarrow>
          (case an par of
             None \<Rightarrow> Inl (KeyError par)
           | Some a \<Rightarrow>
               (case param_doc env np an rest of
                  Inl e \<Rightarrow> Inl e
                | Inr r \<Rightarrow> Inr ((I2 @ n @ '': '' @ a @ vb2pytype env typ @ nl) @ r))))"

text \<open>Lines 227--233: the \<open>Parameters\<close> section, written when there is a parameter.\<close>

definition params_section :: "collab \<Rightarrow> (string \<times> string) list \<Rightarrow> string result" where
  "params_section env sigitems =
     (if length sigitems > 0 then
        (case param_doc env (newparams_of sigitems) (annots_of sigitems) sigitems of
           Inl e \<Rightarrow> Inl e
         | Inr r \<Rightarrow> Inr (I2 @ ''Parameters'' @ nl @ I2 @ ''----------'' @ nl @ r))
      else Inr [])"

text \<open>Line 206: the separator comment before each wrapper.\<close>

definition separator :: string where
  "separator = I1 @ ''# '' @ concat (replicate 36 ''=-'') @ ''='' @ nl"

text \<open>Lines 219--220: the \<open>def\<close> line.\<close>

definition def_line :: "collab \<Rightarrow> string \<Rightarrow> string list \<Rightarrow> string" where
  "def_line env cmdname args =
     I1 @ ''def '' @ cmdname @ ''('' @
     wrap_longlines env (join '', '' args) (Some 50) indent12 @ ''):'' @ nl"

text \<open>Lines 221--239: the docstring.\<close>

definition docstring ::
  "string \<Rightarrow> string \<Rightarrow> string \<Rightarrow> string \<Rightarrow> string" where
  "docstring desc psec ret doc =
     I2 @ ''r\"\"\"'' @ nl @
     I2 @ ''Python API documentation:'' @ nl @
     I2 @ ''========================='' @ nl @
     I2 @ desc @ nl @
     nl @ psec @ ret @ nl @
     I2 @ ''FRED documentation:'' @ nl @
     I2 @ ''==================='' @ nl @
     doc @
     I2 @ ''\"\"\"'' @ nl"

text \<open>Lines 243--251: the record-construction body of a datastruct.\<close>

definition setter :: "string \<Rightarrow> string" where
  "setter p =
     I2 @ ''if '' @ p @ '' is not None:'' @ nl @
     I2 @ I1 @ ''setattr(dstruct, \"'' @ p @ ''\", '' @ p @ '')'' @ nl"

definition record_body :: "string \<Rightarrow> string list \<Rightarrow> string" where
  "record_body cmdname paramlist =
     I2 @ ''dstruct = w32.Record(\"'' @ cmdname @ ''\", self._dobj)'' @ nl @
     concat (map setter (drop 1 paramlist)) @
     I2 @ ''return dstruct'' @ nl"

text \<open>Lines 254--264: the stub-invocation body of a function or subroutine.\<close>

definition stub_body :: "collab \<Rightarrow> string \<Rightarrow> string list \<Rightarrow> string" where
  "stub_body env cmdname paramlist =
     (let paramstr0 = wrap_longlines env (join '', '' (drop 1 paramlist)) (Some 50) indent12;
          paramstr = (if paramstr0 = [] then ''None'' else paramstr0);
          stubpath = path_join env (stubdir env) (cmdname @ ''.frs'')
      in I2 @ ''lib = self._dobj.CreateLib(r\"'' @ stubpath @ ''\")'' @ nl @
         I2 @ ''return lib.libfunct('' @ paramstr @ '')'' @ nl)"

text \<open>
  Lines 138--264 for a command whose kind is not \<open>unknown\<close>: the text written to the
  output file, or the exception raised first. \<open>docdat[cmdname]\<close> (line 162) raises
  \<open>KeyError\<close> for an undocumented command; the return section may raise
  \<open>ValueError\<close> (lines 173, 194).
\<close>

definition wrapper_text :: "collab \<Rightarrow> docdat \<Rightarrow> string \<Rightarrow> api_entry \<Rightarrow> string result" where
  "wrapper_text env docdat cmdname e =
     (let desc = descstr env cmdname e; sigitems = sig e in
      case docdat cmdname of
        None \<Rightarrow> Inl (KeyError cmdname)
      | Some blk \<Rightarrow>
          (let doc = fmt_docstr env blk I2 in
           case retstr (vb2pytype env) (cmdtype e) cmdname sigitems (returns e) of
             Inl err \<Rightarrow> Inl err
           | Inr ret \<Rightarrow>
               (case paramlist_of sigitems of
                  Inl err \<Rightarrow> Inl err
                | Inr paramlist \<Rightarrow>
                    (case params_section env sigitems of
                       Inl err \<Rightarrow> Inl err
                     | Inr psec \<Rightarrow>
                         Inr (separator @
                              def_line env cmdname (arglist (cmdtype e) paramlist) @
                              docstring desc psec ret doc @
                              (if cmdtype e = Datastruct then record_body cmdname paramlist
                               else stub_body env cmdname paramlist))))))"

subsection \<open>The emitter never fails on its own lookups\<close>

text \<open>The documentation line of one parameter, with the dictionaries evaluated.\<close>

definition param_line :: "collab \<Rightarrow> string \<times> string \<Rightarrow> string" where
  "param_line env pt =
     (case pt of (p, t) \<Rightarrow> I2 @ parmat_sub p @ '': '' @ annot_of_name p @ vb2pytype env t @ nl)"

subsection \<open>A concrete collaborator set for the examples\<close>

text \<open>
  The type translation of the spec's examples (\<open>String\<close> is \<open>str\<close>), no line
  wrapping, a documentation formatter that writes heading and text on indented lines,
  and POSIX path joining.
\<close>

definition demo_vb2pytype :: "string \<Rightarrow> string" where
  "demo_vb2pytype t =
     (if t = ''String'' then ''str'' else if t = ''Long'' then ''int''
      else if t = ''Double'' then ''float'' else if t = ''Boolean'' then ''bool'' else t)"

definition demo_env :: collab where
  "demo_env =
     \<lparr>vb2pytype = demo_vb2pytype,
      wrap_longlines = (\<lambda>s n ind. s),
      fmt_docstr = (\<lambda>blk ind. concat (map (\<lambda>(h, t). ind @ h @ nl @ ind @ t @ nl) blk)),
      stubdir = ''stubs'',
      path_join = (\<lambda>a b. a @ ''/'' @ b)\<rparr>"

definition getunits :: api_entry where
  "getunits = \<lparr>cmdtype = Function, descr = ''Get the units.'', returns = [''Units'', ''String''],
                sig = []\<rparr>"

definition t_entity :: api_entry where
  "t_entity = \<lparr>cmdtype = Datastruct, descr = ''Entity.'', returns = [],
                sig = [(''Idnum'', ''Long''), (''Name'', ''String'')]\<rparr>"

subsection \<open>Closed forms of the emitted text\<close>

lemma param_doc_eq:
  assumes "\<forall>(p, t) \<in> set xs. np p = Some (parmat_sub p) \<and> an p = Some (annot_of_name p)"
  shows "param_doc env np an xs = Inr (concat (map (param_line env) xs))"
  using assms by (induction xs) (auto simp: param_line_def)

lemma params_section_eq:
  "params_section env sigitems =
     Inr (if sigitems = [] then []
          else I2 @ ''Parameters'' @ nl @ I2 @ ''----------'' @ nl @
               concat (map (param_line env) sigitems))"
proof -
  have "\<forall>(p, t) \<in> set sigitems. newparams_of sigitems p = Some (parmat_sub p) \<and>
          annots_of sigitems p = Some (annot_of_name p)"
    by (auto simp: newparams_of_lookup annots_of_lookup simp del: parmat_sub.simps)
  then show ?thesis
    by (simp add: params_section_def param_doc_eq)
qed

lemma wrapper_text_aux:
  "wrapper_text env docdat cmdname e =
     (case docdat cmdname of
        None \<Rightarrow> Inl (KeyError cmdname)
      | Some blk \<Rightarrow>
          (case retstr (vb2pytype env) (cmdtype e) cmdname (sig e) (returns e) of
             Inl err \<Rightarrow> Inl err
           | Inr ret \<Rightarrow>
               Inr (separator @
                    def_line env cmdname
                      (arglist (cmdtype e) (''self'' # map (\<lambda>(p, t). parmat_sub p) (sig e))) @
                    docstring (descstr env cmdname e)
                      (if sig e = [] then []
                       else I2 @ ''Parameters'' @ nl @ I2 @ ''----------'' @ nl @
                            concat (map (param_line env) (sig e)))
                      ret (fmt_docstr env blk I2) @
                    (if cmdtype e = Datastruct
                     then record_body cmdname (''self'' # map (\<lambda>(p, t). parmat_sub p) (sig e))
                     else stub_body env cmdname (''self'' # map (\<lambda>(p, t). parmat_sub p) (sig e))))))"
  by (simp add: wrapper_text_def paramlist_of_eq params_section_eq Let_def
      split: option.split sum.split del: parmat_sub.simps)

lemma arglist_Datastruct_plain:
  "\<forall>n \<in> set ns. n \<noteq> ''self'' \<Longrightarrow>
     arglist Datastruct (''self'' # ns) = ''self'' # map (\<lambda>n. n @ ''=None'') ns"
  by (simp add: arglist_Datastruct)

lemma retstr_Datastruct: "retstr ty Datastruct cmdname sigitems rlist =
    Inr (rethdg @ I2 @ ''datastruct: <com_record '' @ cmdname @ ''>'' @ nl)"
  by (simp add: retstr_def)

subsection \<open>Properties of the emitter\<close>

text \<open>
  C8. A command that is missing from the documentation store is not tolerated:
  \<open>docdat[cmdname]\<close> (line 162) raises \<open>KeyError\<close> before anything is written.
\<close>

theorem wrapper_text_missing_doc:
  assumes "docdat cmdname = None"
  shows "wrapper_text env docdat cmdname e = Inl (KeyError cmdname)"
  using assms by (simp add: wrapper_text_def Let_def)

text \<open>
  C13. A datastruct whose parameters are not named \<open>self\<close> gets a \<open>def\<close> line in
  which every parameter after \<open>self\<close> has the \<open>=None\<close> default, and a body that
  builds the record and then sets each field, under its stripped name and in signature
  order, only if it was supplied.
\<close>

theorem datastruct_wrapper:
  assumes "cmdtype e = Datastruct" "docdat cmdname = Some blk"
    and "\<forall>(p, t) \<in> set (sig e). parmat_sub p \<noteq> ''self''"
  shows "\<exists>doc. wrapper_text env docdat cmdname e =
    Inr (separator @
         def_line env cmdname (''self'' # map (\<lambda>(p, t). parmat_sub p @ ''=None'') (sig e)) @
         doc @
         I2 @ ''dstruct = w32.Record(\"'' @ cmdname @ ''\", self._dobj)'' @ nl @
         concat (map (\<lambda>(p, t). setter (parmat_sub p)) (sig e)) @
         I2 @ ''return dstruct'' @ nl)"
proof -
  have "\<forall>n \<in> set (map (\<lambda>(p, t). parmat_sub p) (sig e)). n \<noteq> ''self''"
    using assms(3) by auto
  then have args: "arglist Datastruct (''self'' # map (\<lambda>(p, t). parmat_sub p) (sig e)) =
      ''self'' # map (\<lambda>(p, t). parmat_sub p @ ''=None'') (sig e)"
    by (simp add: arglist_Datastruct_plain comp_def case_prod_beta)
  have body: "map (setter \<circ> (\<lambda>(p, t). parmat_sub p)) (sig e) =
      map (\<lambda>(p, t). setter (parmat_sub p)) (sig e)"
    by (simp add: comp_def split_def)
  let ?psec = "if sig e = [] then [] else I2 @ ''Parameters'' @ nl @ I2 @ ''----------'' @ nl @
                 concat (map (param_line env) (sig e))"
  let ?ret = "rethdg @ I2 @ ''datastruct: <com_record '' @ cmdname @ ''>'' @ nl"
  have "wrapper_text env docdat cmdname e =
    Inr (separator @
         def_line env cmdname (''self'' # map (\<lambda>(p, t). parmat_sub p @ ''=None'') (sig e)) @
         docstring (descstr env cmdname e) ?psec ?ret (fmt_docstr env blk I2) @
         I2 @ ''dstruct = w32.Record(\"'' @ cmdname @ ''\", self._dobj)'' @ nl @
         concat (map (\<lambda>(p, t). setter (parmat_sub p)) (sig e)) @
         I2 @ ''return dstruct'' @ nl)"
    using assms(1,2)
    by (simp add: wrapper_text_aux retstr_Datastruct args record_body_def body
        del: parmat_sub.simps)
  then show ?thesis by blast
qed

text \<open>
  C15. A function or subroutine wrapper ends with the stub call: the stub is loaded from
  \<open>STUBDIR/<name>.frs\<close> and called with the stripped parameter names after
  \<open>self\<close>, or with the placeholder \<open>None\<close> when that list is empty.
\<close>

theorem stub_wrapper:
  assumes "cmdtype e \<noteq> Datastruct" "docdat cmdname = Some blk"
    and "(cmdtype e = Function \<or> cmdtype e = Subroutine) \<longrightarrow> wf_returns (returns e)"
    and "wrap_longlines env (join '', '' (map (\<lambda>(p, t). parmat_sub p) (sig e))) (Some 50)
           indent12 = w"
  shows "\<exists>pre. wrapper_text env docdat cmdname e =
    Inr (pre @
         I2 @ ''lib = self._dobj.CreateLib(r\"'' @
           path_join env (stubdir env) (cmdname @ ''.frs'') @ ''\")'' @ nl @
         I2 @ ''return lib.libfunct('' @ (if w = [] then ''None'' else w) @ '')'' @ nl)"
proof -
  obtain ret where ret: "retstr (vb2pytype env) (cmdtype e) cmdname (sig e) (returns e) = Inr ret"
    using assms(3) retstr_ok by blast
  let ?psec = "if sig e = [] then [] else I2 @ ''Parameters'' @ nl @ I2 @ ''----------'' @ nl @
                 concat (map (param_line env) (sig e))"
  let ?names = "''self'' # map (\<lambda>(p, t). parmat_sub p) (sig e)"
  have "wrapper_text env docdat cmdname e =
    Inr ((separator @ def_line env cmdname (arglist (cmdtype e) ?names) @
          docstring (descstr env cmdname e) ?psec ret (fmt_docstr env blk I2)) @
         I2 @ ''lib = self._dobj.CreateLib(r\"'' @
           path_join env (stubdir env) (cmdname @ ''.frs'') @ ''\")'' @ nl @
         I2 @ ''return lib.libfunct('' @ (if w = [] then ''None'' else w) @ '')'' @ nl)"
    using assms(1,2,4)
    by (simp add: wrapper_text_aux ret stub_body_def Let_def del: parmat_sub.simps)
  then show ?thesis by blast
qed

lemmas demo_simps = demo_env_def demo_vb2pytype_def getunits_def t_entity_def
  parmat_match_def is_ws_def

theorem wrapper_text_missing_doc_witness:
  "wrapper_text demo_env Map.empty ''GetUnits'' getunits = Inl (KeyError ''GetUnits'')"
  by (rule wrapper_text_missing_doc) simp

theorem datastruct_wrapper_witness:
  "\<exists>doc. wrapper_text demo_env [''T_ENTITY'' \<mapsto> []] ''T_ENTITY'' t_entity =
    Inr (separator @ def_line demo_env ''T_ENTITY'' [''self'', ''Idnum=None'', ''Name=None''] @
         doc @
         I2 @ ''dstruct = w32.Record(\"T_ENTITY\", self._dobj)'' @ nl @
         setter ''Idnum'' @ setter ''Name'' @
         I2 @ ''return dstruct'' @ nl)"
proof -
  have ids: "parmat_sub ''Idnum'' = ''Idnum''" "parmat_sub ''Name'' = ''Name''"
    by (simp_all add: demo_simps)
  have "cmdtype t_entity = Datastruct" "[''T_ENTITY'' \<mapsto> []] ''T_ENTITY'' = Some []"
       "\<forall>(p, t) \<in> set (sig t_entity). parmat_sub p \<noteq> ''self''"
    by (simp_all add: t_entity_def ids del: parmat_sub.simps)
  from datastruct_wrapper [where e = t_entity and docdat = "[''T_ENTITY'' \<mapsto> []]"
      and cmdname = "''T_ENTITY''" and blk = "[]" and env = demo_env, OF this]
  show ?thesis by (simp add: t_entity_def ids del: parmat_sub.simps)
qed

theorem stub_wrapper_witness:
  "\<exists>pre. wrapper_text demo_env [''GetUnits'' \<mapsto> []] ''GetUnits'' getunits =
    Inr (pre @ I2 @ ''lib = self._dobj.CreateLib(r\"stubs/GetUnits.frs\")'' @ nl @
         I2 @ ''return lib.libfunct(None)'' @ nl)"
proof -
  have "cmdtype getunits \<noteq> Datastruct" "[''GetUnits'' \<mapsto> []] ''GetUnits'' = Some []"
       "(cmdtype getunits = Function \<or> cmdtype getunits = Subroutine) \<longrightarrow>
          wf_returns (returns getunits)"
       "wrap_longlines demo_env (join '', '' (map (\<lambda>(p, t). parmat_sub p) (sig getunits)))
          (Some 50) indent12 = []"
    by (simp_all add: demo_simps wf_returns_def)
  from stub_wrapper [where e = getunits and docdat = "[''GetUnits'' \<mapsto> []]"
      and cmdname = "''GetUnits''" and blk = "[]" and env = demo_env and w = "[]", OF this]
  show ?thesis by (simp add: demo_env_def)
qed

end
