(* ===== verification/Wrapper_IR.thy ===== *)
theory Wrapper_IR
  imports Emitter
begin
text \<open>
  A structured representation of one wrapper, as the design notes of the specification
  (section 9) ask for: the decisions the generator takes for a command (which arguments
  get the \<open>None\<close> default, which names are documented with which annotation, the shape
  of the \<open>Returns\<close> section, which dispatch body) are made by \<open>build_ir\<close> on data,
  and \<open>render_ir\<close> turns them into text with the formatting pieces of \<open>Emitter\<close>.
  The refinement lemma shows that the text \<open>main()\<close> writes for a command
  (\<open>wrapper_text\<close>, lines 138--264 of \<open>src/pyfred/script03_apiwrapgen.py\<close>) is
  exactly the rendering of this representation, errors included, so the decision logic
  can be reasoned about without comparing strings; \<open>wf_ir\<close> states the consistency
  every built wrapper has.
\<close>

datatype arg_ir = Required string | Optional string

datatype body_ir = RecordBody "string list" | StubCall string "string list"

record wrapper_ir =
  wname :: string
  wargs :: "arg_ir list"
  wdesc :: string
  wparams :: "(string \<times> string \<times> string) list"
  wret :: ret_shape
  wdoc :: string
  wbody :: body_ir

text \<open>The decisions of sections 4.1--4.3 of the specification for one command.\<close>

definition build_ir :: "collab \<Rightarrow> docdat \<Rightarrow> string \<Rightarrow> api_entry \<Rightarrow> wrapper_ir result" where
  "build_ir env docdat k e =
     (case docdat k of
        None \<Rightarrow> Inl (KeyError k)
      | Some blk \<Rightarrow>
          (if (cmdtype e = Function \<or> cmdtype e = Subroutine) \<and> \<not> wf_returns (returns e)
           then Inl ValueError
           else
             (let names = map (\<lambda>(p, t). parmat_sub p) (sig e) in
              Inr \<lparr>wname = k,
                   wargs = Required ''self'' #
                     map (\<lambda>n. if cmdtype e = Datastruct \<and> n \<noteq> ''self'' then Optional n
                              else Required n) names,
                   wdesc = descstr env k e,
                   wparams = map (\<lambda>(p, t). (parmat_sub p, annot_of_name p, vb2pytype env t)) (sig e),
                   wret = compose_ret (cmdtype e) k (sig e) (ret_abs (returns e)),
                   wdoc = fmt_docstr env blk I2,
                   wbody = (if cmdtype e = Datastruct then RecordBody names
                            else StubCall (path_join env (stubdir env) (k @ ''.frs'')) names)\<rparr>)))"

fun render_arg :: "arg_ir \<Rightarrow> string" where
  "render_arg (Required n) = n"
| "render_arg (Optional n) = n @ ''=None''"

fun arg_name :: "arg_ir \<Rightarrow> string" where
  "arg_name (Required n) = n"
| "arg_name (Optional n) = n"

definition render_params :: "(string \<times> string \<times> string) list \<Rightarrow> string" where
  "render_params ps =
     (if ps = [] then []
      else I2 @ ''Parameters'' @ nl @ I2 @ ''----------'' @ nl @
           concat (map (\<lambda>(n, a, t). I2 @ n @ '': '' @ a @ t @ nl) ps))"

fun render_body :: "collab \<Rightarrow> string \<Rightarrow> body_ir \<Rightarrow> string" where
  "render_body env k (RecordBody fs) =
     I2 @ ''dstruct = w32.Record(\"'' @ k @ ''\", self._dobj)'' @ nl @
     concat (map setter fs) @ I2 @ ''return dstruct'' @ nl"
| "render_body env k (StubCall path args) =
     (let w = wrap_longlines env (join '', '' args) (Some 50) indent12 in
      I2 @ ''lib = self._dobj.CreateLib(r\"'' @ path @ ''\")'' @ nl @
      I2 @ ''return lib.libfunct('' @ (if w = [] then ''None'' else w) @ '')'' @ nl)"

definition render_ir :: "collab \<Rightarrow> wrapper_ir \<Rightarrow> string" where
  "render_ir env w =
     separator @ def_line env (wname w) (map render_arg (wargs w)) @
     docstring (wdesc w) (render_params (wparams w)) (render_ret (vb2pytype env) (wret w)) (wdoc w) @
     render_body env (wname w) (wbody w)"

fun body_names :: "body_ir \<Rightarrow> string list" where
  "body_names (RecordBody fs) = fs"
| "body_names (StubCall p args) = args"

text \<open>
  A consistent wrapper: the receiver comes first and is required; the other arguments,
  the documented parameters and the names the body uses are the same names in the same
  order; only a record constructor has optional arguments, and its return is the record.
\<close>

definition wf_ir :: "wrapper_ir \<Rightarrow> bool" where
  "wf_ir w \<longleftrightarrow>
     wargs w \<noteq> [] \<and> hd (wargs w) = Required ''self'' \<and>
     map arg_name (tl (wargs w)) = body_names (wbody w) \<and>
     map fst (wparams w) = body_names (wbody w) \<and>
     (case wbody w of
        RecordBody fs \<Rightarrow> wret w = Record (wname w)
      | StubCall p args \<Rightarrow> (\<forall>a \<in> set (wargs w). \<exists>n. a = Required n))"


subsection \<open>The rendering is the emitted text\<close>

lemma retstr_build:
  "retstr ty ct k sigitems rl =
     (if (ct = Function \<or> ct = Subroutine) \<and> \<not> wf_returns rl then Inl ValueError
      else Inr (render_ret ty (compose_ret ct k sigitems (ret_abs rl))))"
proof (cases "wf_returns rl")
  case True
  then show ?thesis by (simp add: retstr_refines_aux)
next
  case False
  then show ?thesis by (cases ct) (simp_all add: retstr_error_aux, simp_all add: retstr_def)
qed

lemma render_params_eq:
  "render_params (map (\<lambda>(p, t). (parmat_sub p, annot_of_name p, vb2pytype env t)) xs) =
     (if xs = [] then []
      else I2 @ ''Parameters'' @ nl @ I2 @ ''----------'' @ nl @ concat (map (param_line env) xs))"
proof -
  have "map (\<lambda>(n, a, t). I2 @ n @ '': '' @ a @ t @ nl)
          (map (\<lambda>(p, t). (parmat_sub p, annot_of_name p, vb2pytype env t)) xs) =
        map (param_line env) xs"
    by (induction xs) (auto simp: param_line_def simp del: parmat_sub.simps)
  then show ?thesis unfolding render_params_def by (simp only: list.map_disc_iff)
qed

lemma render_body_eq:
  "render_body env k (RecordBody ns) = record_body k (''self'' # ns)"
  "render_body env k (StubCall (path_join env (stubdir env) (k @ ''.frs'')) ns) =
     stub_body env k (''self'' # ns)"
  by (simp_all add: record_body_def stub_body_def Let_def)

lemma wrapper_text_ir_aux:
  "wrapper_text env docdat k e = map_sum id (render_ir env) (build_ir env docdat k e)"
proof (cases "docdat k")
  case None
  then show ?thesis by (simp add: wrapper_text_aux build_ir_def)
next
  case (Some blk)
  let ?ns = "map (\<lambda>(p, t). parmat_sub p) (sig e)"
  show ?thesis
  proof (cases "(cmdtype e = Function \<or> cmdtype e = Subroutine) \<and> \<not> wf_returns (returns e)")
    case True
    with Some show ?thesis by (simp add: wrapper_text_aux build_ir_def retstr_build)
  next
    case False
    with Some show ?thesis
      by (simp add: wrapper_text_aux build_ir_def retstr_build render_ir_def render_params_eq
          arglist_def render_body_eq Let_def if_distrib [of "render_body env k"]
          if_distrib [of render_arg] comp_def cong: if_cong
          del: parmat_sub.simps render_body.simps)
  qed
qed

lemma build_ir_wf_aux: "build_ir env docdat k e = Inr w \<Longrightarrow> wf_ir w"
  by (auto simp: build_ir_def wf_ir_def comp_def split_def Let_def split: option.splits if_splits
      simp del: parmat_sub.simps)


lemma build_ir_wname: "build_ir env docdat k e = Inr w \<Longrightarrow> wname w = k"
  by (auto simp: build_ir_def Let_def split: option.splits if_splits)

subsection \<open>Properties of the representation\<close>

text \<open>
  C6. Refinement: what \<open>main()\<close> writes for a command, or the exception it
  raises, is the rendering of the structured wrapper \<open>build_ir\<close> decides on: the
  documentation lookup fails first, then a malformed \<open>returns\<close> entry of a function or
  subroutine; otherwise every part of the text is the rendering of one field.
\<close>

theorem wrapper_text_refines_ir:
  "wrapper_text env docdat k e = map_sum id (render_ir env) (build_ir env docdat k e)"
  by (rule wrapper_text_ir_aux)

text \<open>
  C7. Every emitted wrapper is consistent: it is the rendering of a structured wrapper
  for the same command in which \<open>self\<close> is the first, required argument, the other
  arguments, the documented parameters and the names the body sets or passes to the
  stub are the same names in the same order, only a record constructor has optional
  arguments, and a record constructor returns the record.
\<close>

theorem wrapper_text_well_formed:
  assumes "wrapper_text env docdat k e = Inr txt"
  shows "\<exists>w. wf_ir w \<and> wname w = k \<and> txt = render_ir env w"
proof -
  from assms obtain w where w: "build_ir env docdat k e = Inr w" "txt = render_ir env w"
    by (cases "build_ir env docdat k e") (auto simp: wrapper_text_ir_aux)
  with build_ir_wf_aux [OF w(1)] build_ir_wname [OF w(1)] show ?thesis by blast
qed

theorem wrapper_text_well_formed_witness:
  "\<exists>txt. wrapper_text demo_env [''T_ENTITY'' \<mapsto> []] ''T_ENTITY'' t_entity = Inr txt \<and>
     (\<exists>w. wf_ir w \<and> wname w = ''T_ENTITY'' \<and> txt = render_ir demo_env w)"
proof -
  have "\<exists>txt. wrapper_text demo_env [''T_ENTITY'' \<mapsto> []] ''T_ENTITY'' t_entity = Inr txt"
    by (simp add: wrapper_text_ir_aux build_ir_def t_entity_def Let_def)
  then obtain code where t: "wrapper_text demo_env [''T_ENTITY'' \<mapsto> []] ''T_ENTITY'' t_entity = Inr code"
    by blast
  from wrapper_text_well_formed [OF t] t show ?thesis by blast
qed

end
