(* ===== verification/Generator.thy ===== *)
theory Generator
  imports Wrapper_IR
begin
text \<open>
  The generation run, \<open>main()\<close> of \<open>src/pyfred/script03_apiwrapgen.py\<close>
  (lines 99--265): the output file \<open>fid\<close> starts with the class header
  \<open>CLASTR\<close> (lines 44--97, stamped with \<open>TIMENOW\<close>), then every command of
  \<open>apidat\<close> is handled in key order: an \<open>unknown\<close> command is reported and skipped,
  any other is reported and its wrapper appended to the file. The state threaded
  through the loop is the file contents and the lines printed to standard output.
  An exception ends the run: the result is then the exception.
\<close>

definition clastr_lines :: "string \<Rightarrow> string list" where
  \<open>clastr_lines ts =
  [''#! /usr/bin/env python'',
   ''# -*- coding: utf-8 -*-'',
   ''"""'',
   ''Provide class to wrap all available FRED commands'',
   ''==============================================================================='',
   ''Copyright 2017, Arthur Davis'',
   ''Email: art.davis@gmail.com'',
   ''This file is part of pyfred. See LICENSE and README.md for details.'',
   ''----------'',
   '''',
   ts @ '' - File generated'',
   '''',
   ''WARNING - This file is automatically generated by script03_apiwrapgen.py.'',
   ''Customizing functions here will override intended API function.'',
   ''Also any changes will be lost the next time script03_apiwrapgen.py is run.'',
   '''',
   ''"""'',
   ''try:'',
   ''    import win32com.client as w32'',
   ''except:'',
   ''    # Load a dummy'',
   ''    print("WARNING: win32com not available. Loading dummy library.")'',
   ''    from w32dummy import WinMethods'',
   ''    w32 = WinMethods()'',
   '''',
   ''class Wrap(object):'',
   ''    """'',
   ''    Class for wrapping all of the FRED functions, subroutines and'',
   ''    datastructures in one place with a consistent API and minimal quirks.'',
   '''',
   ''    Using this class for FRED programming may not be the most efficient'',
   ''    computationally, but it does provide an easier transition for'',
   ''    controlling FRED through python then just using the raw win32com API.'',
   '''',
   ''    Quirks that are caused by problematic parameter passing through the'',
   ''    w32 API and/or inconsistent return structures are averted by wrapping'',
   ''    all functions/subroutines with CreateLib().'',
   '''',
   ''    Also quite handy to have around for quick access to documentation when'',
   ''    using IPython.'',
   '''',
   ''    If imported into the global namespace, allows writing scripts that are'',
   ''    nearly execution compatible with native FRED VBScript.'',
   ''    """'',
   ''    def __init__(self, dobj):'',
   ''        self._dobj = dobj'',
   '''',
   ''    @property'',
   ''    def dobj(self):'',
   ''        """'',
   ''        Attribute property for the FRED COM Interface document object'',
   ''        """'',
   ''        return self._dobj'']\<close>

definition clastr :: "string \<Rightarrow> string" where
  "clastr ts = concat (map (\<lambda>l. l @ nl) (clastr_lines ts))"

record gen_state =
  out :: string
  log :: "string list"

text \<open>Lines 133--264: one iteration of the loop over \<open>cmdnames\<close>.\<close>

definition gen_command ::
  "collab \<Rightarrow> apidat \<Rightarrow> docdat \<Rightarrow> string \<Rightarrow> gen_state \<Rightarrow> gen_state result" where
  "gen_command env apidat docdat cmdname s =
     (case map_of apidat cmdname of
        None \<Rightarrow> Inl (KeyError cmdname)
      | Some e \<Rightarrow>
          (if cmdtype e = Unknown
           then Inr (s\<lparr>log := log s @ [''... unknown command: '' @ cmdname @ ''. SKIPPING'']\<rparr>)
           else
             (let s' = s\<lparr>log := log s @ [''... wrapping '' @ cmdname]\<rparr> in
              case wrapper_text env docdat cmdname e of
                Inl err \<Rightarrow> Inl err
              | Inr txt \<Rightarrow> Inr (s'\<lparr>out := out s' @ txt\<rparr>))))"

text \<open>Lines 132--264: the loop; the first exception ends it.\<close>

fun run_cmds ::
  "collab \<Rightarrow> apidat \<Rightarrow> docdat \<Rightarrow> string list \<Rightarrow> gen_state \<Rightarrow> gen_state result" where
  "run_cmds env apidat docdat [] s = Inr s"
| "run_cmds env apidat docdat (c # cs) s =
     (case gen_command env apidat docdat c s of
        Inl err \<Rightarrow> Inl err
      | Inr s' \<Rightarrow> run_cmds env apidat docdat cs s')"

text \<open>Lines 128--131: the keys, the header, the banner; then the loop.\<close>

definition main :: "collab \<Rightarrow> string \<Rightarrow> apidat \<Rightarrow> docdat \<Rightarrow> gen_state result" where
  "main env ts apidat docdat =
     run_cmds env apidat docdat (map fst apidat)
       \<lparr>out = clastr ts, log = [''\<newline>Wrapping commands in python...'']\<rparr>"

subsection \<open>The loop is independent generation followed by concatenation\<close>

text \<open>
  The spec's view of a run: every command is handled on its own, giving a progress
  line and a (possibly empty) text, and the file is the header followed by the texts
  in key order. \<open>cmd_output\<close> is that per-command result.
\<close>

definition cmd_output :: "collab \<Rightarrow> apidat \<Rightarrow> docdat \<Rightarrow> string \<Rightarrow> (string \<times> string) result" where
  "cmd_output env apidat docdat cmdname =
     (case map_of apidat cmdname of
        None \<Rightarrow> Inl (KeyError cmdname)
      | Some e \<Rightarrow>
          (if cmdtype e = Unknown then Inr (''... unknown command: '' @ cmdname @ ''. SKIPPING'', [])
           else (case wrapper_text env docdat cmdname e of
                   Inl err \<Rightarrow> Inl err
                 | Inr txt \<Rightarrow> Inr (''... wrapping '' @ cmdname, txt))))"

definition emit :: "gen_state \<Rightarrow> (string \<times> string) list \<Rightarrow> gen_state" where
  "emit s rs = s\<lparr>out := out s @ concat (map snd rs), log := log s @ map fst rs\<rparr>"

text \<open>When a command is generated successfully.\<close>

definition cmd_ok :: "docdat \<Rightarrow> string \<Rightarrow> api_entry \<Rightarrow> bool" where
  "cmd_ok docdat cmdname e \<longleftrightarrow>
     cmdtype e = Unknown \<or>
     (docdat cmdname \<noteq> None \<and>
      ((cmdtype e = Function \<or> cmdtype e = Subroutine) \<longrightarrow> wf_returns (returns e)))"

definition banner :: string where
  "banner = ''\<newline>Wrapping commands in python...''"

definition foo_cmd :: api_entry where
  "foo_cmd = \<lparr>cmdtype = Unknown, descr = [], returns = [], sig = []\<rparr>"

subsection \<open>Lemmas on the loop\<close>

lemma run_cmds_seq:
  "run_cmds env apidat docdat ks s =
     map_sum id (emit s) (seq_results (map (cmd_output env apidat docdat) ks))"
proof (induction ks arbitrary: s)
  case Nil
  then show ?case by (simp add: emit_def)
next
  case (Cons k ks)
  then show ?case
    by (auto simp: gen_command_def cmd_output_def emit_def Let_def
        split: option.split sum.split)
qed

lemma wrapper_text_ok:
  "(\<exists>t. wrapper_text env docdat cmdname e = Inr t) \<longleftrightarrow>
     docdat cmdname \<noteq> None \<and>
     ((cmdtype e = Function \<or> cmdtype e = Subroutine) \<longrightarrow> wf_returns (returns e))"
  using retstr_ok [of "vb2pytype env" "cmdtype e" cmdname "sig e" "returns e"]
  by (auto simp: wrapper_text_aux split: option.split sum.split)

lemma cmd_output_ok:
  "map_of apidat cmdname = Some e \<Longrightarrow>
     \<not> isl (cmd_output env apidat docdat cmdname) \<longleftrightarrow> cmd_ok docdat cmdname e"
  using wrapper_text_ok [of env docdat cmdname e]
  by (auto simp: cmd_output_def cmd_ok_def split: sum.split)

lemma main_seq:
  "main env ts apidat docdat =
     map_sum id (emit \<lparr>out = clastr ts, log = [banner]\<rparr>)
       (seq_results (map (cmd_output env apidat docdat) (map fst apidat)))"
  by (simp add: main_def run_cmds_seq banner_def)

lemma seq_cmd_output_known:
  assumes "distinct (map fst apidat)" "set L \<subseteq> set apidat"
    and "seq_results (map (cmd_output env apidat docdat) (map fst L)) = Inr rs"
  shows "\<exists>txts. list_all2 (\<lambda>(k, e) t. wrapper_text env docdat k e = Inr t)
                 (filter (\<lambda>(k, e). cmdtype e \<noteq> Unknown) L) txts \<and>
               concat (map snd rs) = concat txts \<and> length rs = length L"
  using assms(2,3)
proof (induction L arbitrary: rs)
  case Nil
  then show ?case by simp
next
  case (Cons x L)
  obtain k e where x: "x = (k, e)" by fastforce
  with Cons.prems(1) have look: "map_of apidat k = Some e"
    by (auto intro: map_of_is_SomeI [OF assms(1)])
  from Cons.prems(2) obtain r rs' where r: "cmd_output env apidat docdat k = Inr r"
    and rest: "seq_results (map (cmd_output env apidat docdat) (map fst L)) = Inr rs'"
    and rs: "rs = r # rs'"
    by (auto simp: x split: sum.splits)
  from Cons.prems(1) have "set L \<subseteq> set apidat" by simp
  from Cons.IH [OF this rest] obtain txts where
    IH: "list_all2 (\<lambda>(k, e) t. wrapper_text env docdat k e = Inr t)
           (filter (\<lambda>(k, e). cmdtype e \<noteq> Unknown) L) txts"
        "concat (map snd rs') = concat txts" "length rs' = length L"
    by blast
  show ?case
  proof (cases "cmdtype e = Unknown")
    case True
    with r look have "snd r = []" by (auto simp: cmd_output_def)
    with True IH show ?thesis by (auto simp: x rs)
  next
    case False
    with r look have "wrapper_text env docdat k e = Inr (snd r)"
      by (auto simp: cmd_output_def split: sum.splits)
    with False IH show ?thesis
      by (auto simp: x rs intro!: exI [of _ "snd r # txts"])
  qed
qed

lemma wrappers_ir:
  assumes "list_all2 (\<lambda>(k, e) t. wrapper_text env docdat k e = Inr t) L txts"
  shows "\<exists>ws. list_all wf_ir ws \<and> map wname ws = map fst L \<and>
           concat txts = concat (map (render_ir env) ws)"
  using assms
proof (induction rule: list_all2_induct)
  case (Cons x L t txts)
  obtain k e where x: "x = (k, e)" by fastforce
  with Cons.hyps(1) have "wrapper_text env docdat k e = Inr t" by simp
  then obtain w where w: "build_ir env docdat k e = Inr w" "t = render_ir env w"
    by (cases "build_ir env docdat k e") (auto simp: wrapper_text_ir_aux)
  from Cons.IH obtain ws where "list_all wf_ir ws" "map wname ws = map fst L"
    "concat txts = concat (map (render_ir env) ws)" by blast
  with w x build_ir_wf_aux [OF w(1)] build_ir_wname [OF w(1)] show ?case
    by (intro exI [of _ "w # ws"]) simp
qed simp

subsection \<open>Properties of the run\<close>

text \<open>
  C2. Refinement: the loop that threads the output file and the printed lines through
  the commands computes the same as generating every command on its own
  (\<open>cmd_output\<close>, which reads no state) and concatenating: the file is \<open>CLASTR\<close>
  followed by the texts in key order, the printed lines are the banner followed by
  one line per command, and the first exception is the result.
\<close>

theorem main_refines:
  "main env ts apidat docdat =
     map_sum id
       (\<lambda>rs. \<lparr>out = clastr ts @ concat (map snd rs),
              log = ''\<newline>Wrapping commands in python...'' # map fst rs\<rparr>)
       (seq_results (map (cmd_output env apidat docdat) (map fst apidat)))"
  by (cases "seq_results (map (cmd_output env apidat docdat) (map fst apidat))")
    (simp_all add: main_seq emit_def banner_def)

text \<open>
  C3. A run over a store with distinct keys ends without an exception exactly when
  every command of a recognised kind is documented and, if it is a function or a
  subroutine, has a well-formed return entry.
\<close>

theorem main_succeeds_iff:
  assumes "distinct (map fst apidat)"
  shows "(\<exists>s. main env ts apidat docdat = Inr s) \<longleftrightarrow>
           (\<forall>(k, e) \<in> set apidat. cmd_ok docdat k e)"
proof -
  have "(\<exists>s. main env ts apidat docdat = Inr s) \<longleftrightarrow>
        (\<exists>rs. seq_results (map (cmd_output env apidat docdat) (map fst apidat)) = Inr rs)"
    by (cases "seq_results (map (cmd_output env apidat docdat) (map fst apidat))")
      (simp_all add: main_seq)
  also have "\<dots> \<longleftrightarrow> (\<forall>(k, e) \<in> set apidat. \<not> isl (cmd_output env apidat docdat k))"
    by (auto simp: seq_results_Inr_iff)
  also have "\<dots> \<longleftrightarrow> (\<forall>(k, e) \<in> set apidat. cmd_ok docdat k e)"
  proof
    assume L: "\<forall>(k, e) \<in> set apidat. \<not> isl (cmd_output env apidat docdat k)"
    show "\<forall>(k, e) \<in> set apidat. cmd_ok docdat k e"
    proof
      fix x assume x: "x \<in> set apidat"
      obtain k e where ke: "x = (k, e)" by fastforce
      with x L have "\<not> isl (cmd_output env apidat docdat k)" by auto
      with cmd_output_ok [OF map_of_is_SomeI [OF assms]] x ke
      show "case x of (k, e) \<Rightarrow> cmd_ok docdat k e" by simp
    qed
  next
    assume R: "\<forall>(k, e) \<in> set apidat. cmd_ok docdat k e"
    show "\<forall>(k, e) \<in> set apidat. \<not> isl (cmd_output env apidat docdat k)"
    proof
      fix x assume x: "x \<in> set apidat"
      obtain k e where ke: "x = (k, e)" by fastforce
      with x R have "cmd_ok docdat k e" by auto
      with cmd_output_ok [OF map_of_is_SomeI [OF assms]] x ke
      show "case x of (k, e) \<Rightarrow> \<not> isl (cmd_output env apidat docdat k)" by simp
    qed
  qed
  finally show ?thesis .
qed

theorem main_succeeds_iff_witness:
  "\<exists>s. main demo_env ''2017-01-01 00:00:00''
         [(''GetUnits'', getunits), (''Foo'', foo_cmd)] [''GetUnits'' \<mapsto> []] = Inr s"
proof -
  have "distinct (map fst [(''GetUnits'', getunits), (''Foo'', foo_cmd)])" by simp
  from main_succeeds_iff [OF this, of demo_env "''2017-01-01 00:00:00''" "[''GetUnits'' \<mapsto> []]"]
  show ?thesis
    by (simp add: cmd_ok_def getunits_def foo_cmd_def wf_returns_def)
qed

text \<open>
  C25. Composition of the loop with the structured representation of a wrapper: after
  a successful run over a store with distinct keys the file is the header followed by
  the renderings of well-formed structured wrappers whose names are exactly the names
  of the commands of a recognised kind, in key order and without repetition (so no
  generated method of the class overrides another), and one line was printed per
  command after the banner.
\<close>

theorem main_out_structured:
  assumes "main env ts apidat docdat = Inr s" "distinct (map fst apidat)"
  shows "\<exists>ws. list_all wf_ir ws \<and>
           map wname ws = map fst (filter (\<lambda>(k, e). cmdtype e \<noteq> Unknown) apidat) \<and>
           distinct (map wname ws) \<and>
           out s = clastr ts @ concat (map (render_ir env) ws) \<and>
           length (log s) = Suc (length apidat)"
proof -
  from assms(1) obtain rs where
    rs: "seq_results (map (cmd_output env apidat docdat) (map fst apidat)) = Inr rs"
    and s: "s = emit \<lparr>out = clastr ts, log = [banner]\<rparr> rs"
    by (cases "seq_results (map (cmd_output env apidat docdat) (map fst apidat))")
      (auto simp: main_seq)
  from seq_cmd_output_known [OF assms(2) subset_refl rs] obtain txts where
    txts: "list_all2 (\<lambda>(k, e) t. wrapper_text env docdat k e = Inr t)
             (filter (\<lambda>(k, e). cmdtype e \<noteq> Unknown) apidat) txts"
      "concat (map snd rs) = concat txts" "length rs = length apidat" by blast
  from wrappers_ir [OF txts(1)] obtain ws where ws: "list_all wf_ir ws"
    "map wname ws = map fst (filter (\<lambda>(k, e). cmdtype e \<noteq> Unknown) apidat)"
    "concat txts = concat (map (render_ir env) ws)" by blast
  moreover from ws(2) assms(2) have "distinct (map wname ws)"
    by (simp add: distinct_map_filter)
  ultimately show ?thesis using s txts(2,3) by (auto simp: emit_def)
qed

theorem main_out_structured_witness:
  "\<exists>s. main demo_env ''T'' [(''GetUnits'', getunits), (''Foo'', foo_cmd)] [''GetUnits'' \<mapsto> []] = Inr s \<and>
     (\<exists>ws. list_all wf_ir ws \<and> map wname ws = [''GetUnits''] \<and> distinct (map wname ws) \<and>
        out s = clastr ''T'' @ concat (map (render_ir demo_env) ws) \<and> length (log s) = 3)"
proof -
  have "\<exists>s. main demo_env ''T'' [(''GetUnits'', getunits), (''Foo'', foo_cmd)]
      [''GetUnits'' \<mapsto> []] = Inr s"
    by (simp add: main_def gen_command_def wrapper_text_ir_aux build_ir_def getunits_def
        foo_cmd_def wf_returns_def Let_def)
  then obtain s where run: "main demo_env ''T'' [(''GetUnits'', getunits), (''Foo'', foo_cmd)]
      [''GetUnits'' \<mapsto> []] = Inr s" by blast
  have "distinct (map fst [(''GetUnits'', getunits), (''Foo'', foo_cmd)])" by simp
  from main_out_structured [OF run this] run show ?thesis
    by (simp add: getunits_def foo_cmd_def numeral_3_eq_3)
qed

end
