(* ===== verification/Run.thy ===== *)
theory Run
  imports Generator "HOL-Library.Sublist"
begin
text \<open>
  The generation loop of \<open>main()\<close> (lines 132--265 of
  \<open>src/pyfred/script03_apiwrapgen.py\<close>) as a small-step semantics: a configuration
  is the loop running over the remaining command names with the file contents and the
  printed lines so far, the run stopped by an exception (with what had been written and
  printed when it was raised), or the file closed (line 265). One step is one iteration
  of \<open>for cmdname in cmdnames\<close>, or the close after the last one. The lemmas show what the
  file and the printed lines hold in every configuration reachable from the start of
  \<open>main()\<close>, in particular when the run is stopped by an exception, and that along
  any steps both only grow by appending.
\<close>

datatype run_cfg =
    Running "string list" gen_state
  | Failed py_error gen_state
  | Closed gen_state

text \<open>
  Lines 133--137: the lookup \<open>apidat[cmdname]\<close> (a \<open>KeyError\<close> for a name that is not
  a key), the skip of an \<open>unknown\<close> command with its notice, the progress line; then
  the wrapper (lines 138--264). With signature entries modelled as pairs, every
  exception of the wrapper is raised before its first write (line 162 and lines 173, 194
  precede the separator written at line 206); a malformed signature entry, which the
  model excludes, would raise at line 230 after the first writes. Line 265:
  the file is closed when the names are exhausted.
\<close>

inductive gen_step :: "collab \<Rightarrow> apidat \<Rightarrow> docdat \<Rightarrow> run_cfg \<Rightarrow> run_cfg \<Rightarrow> bool"
  for env :: collab and apidat :: apidat and docdat :: docdat where
  missing: "map_of apidat k = None \<Longrightarrow>
    gen_step env apidat docdat (Running (k # ks) s) (Failed (KeyError k) s)"
| skip: "map_of apidat k = Some e \<Longrightarrow> cmdtype e = Unknown \<Longrightarrow>
    gen_step env apidat docdat (Running (k # ks) s)
      (Running ks (s\<lparr>log := log s @ [''... unknown command: '' @ k @ ''. SKIPPING'']\<rparr>))"
| wrap: "map_of apidat k = Some e \<Longrightarrow> cmdtype e \<noteq> Unknown \<Longrightarrow>
    wrapper_text env docdat k e = Inr t \<Longrightarrow>
    gen_step env apidat docdat (Running (k # ks) s)
      (Running ks (s\<lparr>log := log s @ [''... wrapping '' @ k], out := out s @ t\<rparr>))"
| raise: "map_of apidat k = Some e \<Longrightarrow> cmdtype e \<noteq> Unknown \<Longrightarrow>
    wrapper_text env docdat k e = Inl err \<Longrightarrow>
    gen_step env apidat docdat (Running (k # ks) s)
      (Failed err (s\<lparr>log := log s @ [''... wrapping '' @ k]\<rparr>))"
| close: "gen_step env apidat docdat (Running [] s) (Closed s)"

text \<open>Lines 128--131: the configuration at the start of the loop.\<close>

definition start_cfg :: "string \<Rightarrow> apidat \<Rightarrow> run_cfg" where
  "start_cfg ts apidat = Running (map fst apidat) \<lparr>out = clastr ts, log = [banner]\<rparr>"

text \<open>The file contents and printed lines of a configuration.\<close>

fun cfg_state :: "run_cfg \<Rightarrow> gen_state" where
  "cfg_state (Running ks s) = s"
| "cfg_state (Failed err s) = s"
| "cfg_state (Closed s) = s"

subsection \<open>What is reachable from the start of the loop\<close>

lemma emit_snoc:
  "emit s (rs @ [r]) = (emit s rs)\<lparr>out := out (emit s rs) @ snd r, log := log (emit s rs) @ [fst r]\<rparr>"
  by (simp add: emit_def)

lemma reachable_inv_aux:
  assumes "(gen_step env apidat docdat)\<^sup>*\<^sup>* (start_cfg ts apidat) c"
  shows "case c of
      Running ks s \<Rightarrow> (\<exists>pre rs. map fst apidat = pre @ ks \<and>
          seq_results (map (cmd_output env apidat docdat) pre) = Inr rs \<and>
          s = emit \<lparr>out = clastr ts, log = [banner]\<rparr> rs)
    | Failed err s \<Rightarrow> (\<exists>pre k ks rs. map fst apidat = pre @ k # ks \<and>
          seq_results (map (cmd_output env apidat docdat) pre) = Inr rs \<and>
          cmd_output env apidat docdat k = Inl err \<and>
          out s = clastr ts @ concat (map snd rs) \<and>
          log s = banner # map fst rs @ [''... wrapping '' @ k])
    | Closed s \<Rightarrow> main env ts apidat docdat = Inr s"
  using assms
proof (induction rule: rtranclp_induct)
  case base
  show ?case by (auto simp: start_cfg_def emit_def intro!: exI [of _ "[]"])
next
  case (step c c')
  from step.hyps(2) show ?case
  proof (cases rule: gen_step.cases)
    case (missing k ks s)
    with step.IH have "k \<in> fst ` set apidat" by (auto simp flip: set_map)
    with missing(3) show ?thesis by (simp add: map_of_eq_None_iff)
  next
    case (skip k e ks s)
    with step.IH obtain pre rs where IH: "map fst apidat = pre @ k # ks"
      "seq_results (map (cmd_output env apidat docdat) pre) = Inr rs"
      "s = emit \<lparr>out = clastr ts, log = [banner]\<rparr> rs" by auto
    let ?r = "(''... unknown command: '' @ k @ ''. SKIPPING'', [] :: string)"
    from skip have "cmd_output env apidat docdat k = Inr ?r" by (simp add: cmd_output_def)
    with IH(2) have "seq_results (map (cmd_output env apidat docdat) (pre @ [k])) = Inr (rs @ [?r])"
      by (simp add: seq_results_snoc)
    with skip IH(1,3) show ?thesis by (auto simp: emit_snoc intro!: exI [of _ "pre @ [k]"])
  next
    case (wrap k e t ks s)
    with step.IH obtain pre rs where IH: "map fst apidat = pre @ k # ks"
      "seq_results (map (cmd_output env apidat docdat) pre) = Inr rs"
      "s = emit \<lparr>out = clastr ts, log = [banner]\<rparr> rs" by auto
    let ?r = "(''... wrapping '' @ k, t)"
    from wrap have "cmd_output env apidat docdat k = Inr ?r" by (simp add: cmd_output_def)
    with IH(2) have "seq_results (map (cmd_output env apidat docdat) (pre @ [k])) = Inr (rs @ [?r])"
      by (simp add: seq_results_snoc)
    with wrap IH(1,3) show ?thesis by (auto simp: emit_snoc intro!: exI [of _ "pre @ [k]"])
  next
    case (raise k e err ks s)
    with step.IH obtain pre rs where IH: "map fst apidat = pre @ k # ks"
      "seq_results (map (cmd_output env apidat docdat) pre) = Inr rs"
      "s = emit \<lparr>out = clastr ts, log = [banner]\<rparr> rs" by auto
    from raise have "cmd_output env apidat docdat k = Inl err" by (simp add: cmd_output_def)
    with raise IH show ?thesis by (auto simp: emit_def)
  next
    case (close s)
    with step.IH obtain rs where
      "seq_results (map (cmd_output env apidat docdat) (map fst apidat)) = Inr rs"
      "s = emit \<lparr>out = clastr ts, log = [banner]\<rparr> rs" by auto
    with close show ?thesis by (simp add: main_seq)
  qed
qed

lemma gen_step_appends:
  "gen_step env apidat docdat c c' \<Longrightarrow>
     prefix (out (cfg_state c)) (out (cfg_state c')) \<and>
     prefix (log (cfg_state c)) (log (cfg_state c')) \<and>
     length (log (cfg_state c')) \<le> Suc (length (log (cfg_state c)))"
  by (induction rule: gen_step.induct) auto

subsection \<open>Properties of the loop\<close>

text \<open>
  C4. Loop invariant: in every configuration reachable from the start of \<open>main()\<close>
  where the loop is still running, the names handled so far are a prefix of the keys,
  each of them was handled without an exception, the file is the header followed by
  their texts, and the printed lines are the banner followed by one line per handled
  command.
\<close>

theorem reachable_running_inv:
  assumes "(gen_step env apidat docdat)\<^sup>*\<^sup>* (start_cfg ts apidat) (Running ks s)"
  shows "\<exists>pre rs. map fst apidat = pre @ ks \<and> length rs = length pre \<and>
           seq_results (map (cmd_output env apidat docdat) pre) = Inr rs \<and>
           out s = clastr ts @ concat (map snd rs) \<and> log s = banner # map fst rs"
proof -
  from reachable_inv_aux [OF assms] obtain pre rs where
    inv: "map fst apidat = pre @ ks" "seq_results (map (cmd_output env apidat docdat) pre) = Inr rs"
      "s = emit \<lparr>out = clastr ts, log = [banner]\<rparr> rs" by auto
  from seq_results_Inr [OF inv(2)] have "length rs = length pre" by (metis length_map)
  with inv show ?thesis by (auto simp: emit_def)
qed

theorem reachable_running_inv_witness:
  "\<exists>pre rs. [''Foo''] = pre @ [] \<and> length rs = length pre \<and>
     seq_results (map (cmd_output demo_env [(''Foo'', foo_cmd)] Map.empty) pre) = Inr rs \<and>
     out \<lparr>out = clastr ''T'', log = [banner, ''... unknown command: Foo. SKIPPING'']\<rparr> =
       clastr ''T'' @ concat (map snd rs) \<and>
     log \<lparr>out = clastr ''T'', log = [banner, ''... unknown command: Foo. SKIPPING'']\<rparr> =
       banner # map fst rs"
proof -
  have "gen_step demo_env [(''Foo'', foo_cmd)] Map.empty (start_cfg ''T'' [(''Foo'', foo_cmd)])
     (Running [] \<lparr>out = clastr ''T'', log = [banner, ''... unknown command: Foo. SKIPPING'']\<rparr>)"
    using gen_step.skip [of "[(''Foo'', foo_cmd)]" "''Foo''" foo_cmd demo_env Map.empty "[]"
        "\<lparr>out = clastr ''T'', log = [banner]\<rparr>"]
    by (simp add: foo_cmd_def start_cfg_def)
  from reachable_running_inv
      [OF r_into_rtranclp [of "gen_step demo_env [(''Foo'', foo_cmd)] Map.empty", OF this]] show ?thesis by simp
qed

text \<open>
  C5. When an exception stops the run, it was raised by the wrapper of a command
  \<open>k\<close> of the store after every command before \<open>k\<close> had been handled: the file
  holds the header and the complete texts of those commands and nothing of \<open>k\<close>'s,
  and the last printed line is \<open>k\<close>'s progress line (for signature entries that are
  pairs, the data model of the specification).
\<close>

theorem reachable_failed_output:
  assumes "(gen_step env apidat docdat)\<^sup>*\<^sup>* (start_cfg ts apidat) (Failed err s)"
  shows "\<exists>pre k ks rs. map fst apidat = pre @ k # ks \<and>
           seq_results (map (cmd_output env apidat docdat) pre) = Inr rs \<and>
           cmd_output env apidat docdat k = Inl err \<and>
           out s = clastr ts @ concat (map snd rs) \<and>
           log s = banner # map fst rs @ [''... wrapping '' @ k]"
  using reachable_inv_aux [OF assms] by simp

theorem reachable_failed_output_witness:
  "\<exists>pre k ks rs. [''GetUnits''] = pre @ k # ks \<and>
     seq_results (map (cmd_output demo_env [(''GetUnits'', getunits)] Map.empty) pre) = Inr rs \<and>
     cmd_output demo_env [(''GetUnits'', getunits)] Map.empty k = Inl (KeyError ''GetUnits'') \<and>
     out \<lparr>out = clastr ''T'', log = [banner, ''... wrapping GetUnits'']\<rparr> =
       clastr ''T'' @ concat (map snd rs) \<and>
     log \<lparr>out = clastr ''T'', log = [banner, ''... wrapping GetUnits'']\<rparr> =
       banner # map fst rs @ [''... wrapping '' @ k]"
proof -
  have "gen_step demo_env [(''GetUnits'', getunits)] Map.empty
     (start_cfg ''T'' [(''GetUnits'', getunits)])
     (Failed (KeyError ''GetUnits'') \<lparr>out = clastr ''T'', log = [banner, ''... wrapping GetUnits'']\<rparr>)"
    using gen_step.raise [of "[(''GetUnits'', getunits)]" "''GetUnits''" getunits demo_env
        Map.empty "KeyError ''GetUnits''" "[]" "\<lparr>out = clastr ''T'', log = [banner]\<rparr>"]
    by (simp add: getunits_def start_cfg_def wrapper_text_def)
  from reachable_failed_output
      [OF r_into_rtranclp [of "gen_step demo_env [(''GetUnits'', getunits)] Map.empty", OF this]] show ?thesis by simp
qed

text \<open>
  C22. The output file and the printed lines are append-only streams (section 5 of the
  specification): along any sequence of \<open>n\<close> steps, from any configuration, the file
  and the printed lines only grow by appending, and at most \<open>n\<close> lines are printed.
\<close>

theorem steps_append_only:
  assumes "(gen_step env apidat docdat ^^ n) c c'"
  shows "prefix (out (cfg_state c)) (out (cfg_state c')) \<and>
         prefix (log (cfg_state c)) (log (cfg_state c')) \<and>
         length (log (cfg_state c')) \<le> length (log (cfg_state c)) + n"
  using assms
proof (induction n arbitrary: c')
  case (Suc n)
  then obtain y where y: "(gen_step env apidat docdat ^^ n) c y" "gen_step env apidat docdat y c'"
    by auto
  from Suc.IH [OF y(1)] gen_step_appends [OF y(2)] show ?case
    by (auto intro: prefix_order.trans)
qed simp

theorem steps_append_only_witness:
  "(gen_step demo_env [(''Foo'', foo_cmd)] Map.empty ^^ 1)
     (Running [''Foo''] \<lparr>out = ''x'', log = []\<rparr>)
     (Running [] \<lparr>out = ''x'', log = [''... unknown command: Foo. SKIPPING'']\<rparr>) \<and>
   prefix ''x'' ''x'' \<and> length [''... unknown command: Foo. SKIPPING''] \<le> 0 + 1"
proof -
  have "gen_step demo_env [(''Foo'', foo_cmd)] Map.empty
     (Running [''Foo''] \<lparr>out = ''x'', log = []\<rparr>)
     (Running [] \<lparr>out = ''x'', log = [''... unknown command: Foo. SKIPPING'']\<rparr>)"
    using gen_step.skip [of "[(''Foo'', foo_cmd)]" "''Foo''" foo_cmd demo_env Map.empty "[]"
        "\<lparr>out = ''x'', log = []\<rparr>"]
    by (simp add: foo_cmd_def)
  then have r: "(gen_step demo_env [(''Foo'', foo_cmd)] Map.empty ^^ 1)
     (Running [''Foo''] \<lparr>out = ''x'', log = []\<rparr>)
     (Running [] \<lparr>out = ''x'', log = [''... unknown command: Foo. SKIPPING'']\<rparr>)"
    by (simp add: relcompp_apply)
  from steps_append_only [OF r] r show ?thesis by simp
qed

end
