(* ===== verification/Clock.thy ===== *)
theory Clock
  imports Generator
begin
text \<open>
  The generation timestamp and the script's entry point in
  \<open>src/pyfred/script03_apiwrapgen.py\<close>: line 38,
  \<^verbatim>\<open>TIMENOW = datetime.datetime.now().strftime('%Y-%m-%d %H:%M:%S')\<close>, computed
  when the module is loaded, and lines 266--269, which call \<open>main()\<close> only when the
  file is run as a script. Reading the clock is input: the current time is a parameter
  \<open>now\<close>, a \<open>datetime\<close> value. \<open>strftime\<close> with this format writes the year as
  four digits (every year a \<open>datetime\<close> of the clock can have, 1000--9999, has four)
  and the other fields as two zero-padded digits. \<open>parse_timestamp\<close> reads such a
  string back; it is the reference decoder against which the format is shown to lose
  nothing.
\<close>

record datetime =
  year :: nat
  month :: nat
  day :: nat
  hour :: nat
  minute :: nat
  second :: nat

definition leap_year :: "nat \<Rightarrow> bool" where
  "leap_year y \<longleftrightarrow> y mod 4 = 0 \<and> (y mod 100 \<noteq> 0 \<or> y mod 400 = 0)"

definition days_in_month :: "nat \<Rightarrow> nat \<Rightarrow> nat" where
  "days_in_month y m =
     (if m = 2 then (if leap_year y then 29 else 28)
      else if m = 4 \<or> m = 6 \<or> m = 9 \<or> m = 11 then 30 else 31)"

text \<open>The values \<open>datetime.now()\<close> returns in the years the format prints with four digits.\<close>

definition wf_datetime :: "datetime \<Rightarrow> bool" where
  "wf_datetime d \<longleftrightarrow>
     1000 \<le> year d \<and> year d \<le> 9999 \<and> 1 \<le> month d \<and> month d \<le> 12 \<and>
     1 \<le> day d \<and> day d \<le> days_in_month (year d) (month d) \<and>
     hour d < 24 \<and> minute d < 60 \<and> second d < 60"

text \<open>\<open>w\<close> zero-padded decimal digits of \<open>n\<close> (its \<open>w\<close> last digits).\<close>

fun digits :: "nat \<Rightarrow> nat \<Rightarrow> string" where
  "digits 0 n = []"
| "digits (Suc w) n = digits w (n div 10) @ [char_of (48 + n mod 10)]"

text \<open>Line 38: \<open>strftime('%Y-%m-%d %H:%M:%S')\<close>.\<close>

definition timenow :: "datetime \<Rightarrow> string" where
  "timenow d =
     digits 4 (year d) @ ''-'' @ digits 2 (month d) @ ''-'' @ digits 2 (day d) @ '' '' @
     digits 2 (hour d) @ '':'' @ digits 2 (minute d) @ '':'' @ digits 2 (second d)"

text \<open>
  Lines 38 and 266--269: loading the module computes \<open>TIMENOW\<close>; the body of
  \<open>main()\<close> runs, with that header stamp, only when \<open>__name__\<close> is
  \<open>"__main__"\<close>. \<open>None\<close> is an import that runs nothing.
\<close>

definition run_module ::
  "collab \<Rightarrow> datetime \<Rightarrow> string \<Rightarrow> apidat \<Rightarrow> docdat \<Rightarrow> gen_state result option" where
  "run_module env now modname apidat docdat =
     (let ts = timenow now in
      if modname = ''__main__'' then Some (main env ts apidat docdat) else None)"

text \<open>Reading a decimal numeral back (\<open>None\<close> unless every character is a digit).\<close>

fun undigits_acc :: "nat \<Rightarrow> string \<Rightarrow> nat option" where
  "undigits_acc acc [] = Some acc"
| "undigits_acc acc (c # cs) =
     (let k = of_char c :: nat in
      if 48 \<le> k \<and> k \<le> 57 then undigits_acc (10 * acc + (k - 48)) cs else None)"

definition undigits :: "string \<Rightarrow> nat option" where
  "undigits s = undigits_acc 0 s"

definition parse_timestamp :: "string \<Rightarrow> datetime option" where
  "parse_timestamp s =
     (if length s = 19 \<and> s ! 4 = CHR ''-'' \<and> s ! 7 = CHR ''-'' \<and> s ! 10 = CHR '' '' \<and>
         s ! 13 = CHR '':'' \<and> s ! 16 = CHR '':''
      then
        (case (undigits (take 4 s), undigits (take 2 (drop 5 s)), undigits (take 2 (drop 8 s)),
               undigits (take 2 (drop 11 s)), undigits (take 2 (drop 14 s)),
               undigits (drop 17 s)) of
           (Some y, Some mo, Some dd, Some h, Some mi, Some se) \<Rightarrow>
             (let d = \<lparr>year = y, month = mo, day = dd, hour = h, minute = mi, second = se\<rparr> in
              if wf_datetime d then Some d else None)
         | _ \<Rightarrow> None)
      else None)"


subsection \<open>Digits\<close>

lemma length_digits [simp]: "length (digits w n) = w"
  by (induction w arbitrary: n) auto

lemma undigits_acc_append:
  "undigits_acc acc (xs @ ys) =
     (case undigits_acc acc xs of None \<Rightarrow> None | Some a \<Rightarrow> undigits_acc a ys)"
  by (induction acc xs rule: undigits_acc.induct) (auto simp: Let_def)

lemma undigits_acc_digits:
  "undigits_acc acc (digits w n) = Some (acc * 10 ^ w + n mod 10 ^ w)"
proof (induction w arbitrary: n)
  case (Suc w)
  have c: "of_char (char_of (48 + n mod 10) :: char) = (48 + n mod 10 :: nat)"
    by (simp add: of_char_of)
  have "10 * (n div 10 mod 10 ^ w) + n mod 10 = n mod (10 * 10 ^ w)"
    by (simp add: mod_mult2_eq)
  then show ?case
    by (simp add: undigits_acc_append Suc.IH c algebra_simps)
qed simp

lemma undigits_digits: "n < 10 ^ w \<Longrightarrow> undigits (digits w n) = Some n"
  by (simp add: undigits_def undigits_acc_digits)

lemma digits_undigits: "undigits s = Some n \<Longrightarrow> digits (length s) n = s"
proof (induction s arbitrary: n rule: rev_induct)
  case (snoc c s)
  from snoc.prems obtain a where a: "undigits s = Some a"
    and k: "48 \<le> (of_char c :: nat)" "(of_char c :: nat) \<le> 57"
    and n: "n = 10 * a + (of_char c - 48)"
    by (auto simp: undigits_def undigits_acc_append Let_def split: option.splits if_splits)
  define j where "j = (of_char c :: nat) - 48"
  from k have j: "j < 10" "(of_char c :: nat) = 48 + j" by (auto simp: j_def)
  from n j have "n = 10 * a + j" by simp
  with j(1) have "n div 10 = a" "n mod 10 = j" by auto
  moreover from j(2) have "char_of (48 + j) = c" by (metis char_of_char)
  ultimately show ?case using snoc.IH [OF a] by simp
qed (simp add: undigits_def)


subsection \<open>The timestamp format\<close>

lemma days_in_month_le: "days_in_month y m \<le> 31"
  by (simp add: days_in_month_def)

lemma timestamp_split:
  assumes "length s = 19"
  shows "s = take 4 s @ s ! 4 # take 2 (drop 5 s) @ s ! 7 # take 2 (drop 8 s) @ s ! 10 #
             take 2 (drop 11 s) @ s ! 13 # take 2 (drop 14 s) @ s ! 16 # drop 17 s"
  using assms by (auto simp: length_Suc_conv numeral_eq_Suc)

lemma parse_timenow:
  assumes "wf_datetime d"
  shows "parse_timestamp (timenow d) = Some d"
proof -
  from assms have b: "year d < 10 ^ 4" "month d < 10 ^ 2" "day d < 10 ^ 2" "hour d < 10 ^ 2"
    "minute d < 10 ^ 2" "second d < 10 ^ 2"
    using days_in_month_le [of "year d" "month d"] by (auto simp: wf_datetime_def)
  have eta: "\<lparr>year = year d, month = month d, day = day d, hour = hour d, minute = minute d,
      second = second d\<rparr> = d" by (cases d) simp
  from b assms show ?thesis
    by (simp add: parse_timestamp_def timenow_def nth_append undigits_digits Let_def eta)
qed


lemma timenow_parse:
  assumes "parse_timestamp s = Some d"
  shows "wf_datetime d \<and> timenow d = s"
proof -
  from assms have len: "length s = 19" and sep: "s ! 4 = CHR ''-''" "s ! 7 = CHR ''-''"
    "s ! 10 = CHR '' ''" "s ! 13 = CHR '':''" "s ! 16 = CHR '':''"
    by (auto simp: parse_timestamp_def split: if_splits)
  from assms len sep obtain y mo dd h mi se where
    u: "undigits (take 4 s) = Some y" "undigits (take 2 (drop 5 s)) = Some mo"
       "undigits (take 2 (drop 8 s)) = Some dd" "undigits (take 2 (drop 11 s)) = Some h"
       "undigits (take 2 (drop 14 s)) = Some mi" "undigits (drop 17 s) = Some se"
    and d: "d = \<lparr>year = y, month = mo, day = dd, hour = h, minute = mi, second = se\<rparr>"
    and wf: "wf_datetime d"
    by (auto simp: parse_timestamp_def Let_def split: option.splits if_splits)
  from len have "digits 4 y = take 4 s" "digits 2 mo = take 2 (drop 5 s)"
    "digits 2 dd = take 2 (drop 8 s)" "digits 2 h = take 2 (drop 11 s)"
    "digits 2 mi = take 2 (drop 14 s)" "digits 2 se = drop 17 s"
    using digits_undigits [OF u(1)] digits_undigits [OF u(2)] digits_undigits [OF u(3)]
      digits_undigits [OF u(4)] digits_undigits [OF u(5)] digits_undigits [OF u(6)]
    by simp_all
  with d sep timestamp_split [OF len] have "timenow d = s" by (simp add: timenow_def)
  with wf show ?thesis by simp
qed

lemma timenow_inj:
  "wf_datetime d1 \<Longrightarrow> wf_datetime d2 \<Longrightarrow> timenow d1 = timenow d2 \<longleftrightarrow> d1 = d2"
  by (metis option.inject parse_timenow)

lemma length_timenow [simp]: "length (timenow d) = 19"
  by (simp add: timenow_def)

text \<open>The header is a fixed text around the timestamp.\<close>

lemma clastr_split:
  "clastr ts = concat (map (\<lambda>l. l @ nl) (take 10 (clastr_lines []))) @ ts @
     '' - File generated'' @ nl @ concat (map (\<lambda>l. l @ nl) (drop 11 (clastr_lines [])))"
  by (simp add: clastr_def clastr_lines_def)

lemma main_out_split:
  "main env ts apidat docdat =
     map_sum id (\<lambda>rs. \<lparr>out = concat (map (\<lambda>l. l @ nl) (take 10 (clastr_lines []))) @ ts @
        '' - File generated'' @ nl @ concat (map (\<lambda>l. l @ nl) (drop 11 (clastr_lines []))) @
        concat (map snd rs), log = banner # map fst rs\<rparr>)
       (seq_results (map (cmd_output env apidat docdat) (map fst apidat)))"
  by (cases "seq_results (map (cmd_output env apidat docdat) (map fst apidat))")
    (simp_all add: main_seq emit_def clastr_split)


subsection \<open>Properties of the timestamp and of a run of the script\<close>

text \<open>
  C24. Round trip: the timestamp written into the header loses nothing: a string is
  read back as a clock value exactly when it is the \<open>strftime\<close> text of that value.
\<close>

theorem timestamp_roundtrip: "parse_timestamp s = Some d \<longleftrightarrow> wf_datetime d \<and> timenow d = s"
  using parse_timenow timenow_parse by blast

theorem timestamp_roundtrip_witness:
  "parse_timestamp ''2017-03-05 14:07:09'' =
     Some \<lparr>year = 2017, month = 3, day = 5, hour = 14, minute = 7, second = 9\<rparr>"
proof -
  have "wf_datetime \<lparr>year = 2017, month = 3, day = 5, hour = 14, minute = 7, second = 9\<rparr> \<and>
        timenow \<lparr>year = 2017, month = 3, day = 5, hour = 14, minute = 7, second = 9\<rparr> =
          ''2017-03-05 14:07:09''"
    by code_simp
  then show ?thesis using timestamp_roundtrip by blast
qed

text \<open>
  C23. Two runs of the script on the same stores at two times both succeed or not
  together; when they succeed, they print the same lines, and their files are the same
  text around the two timestamps, at the same place: the files are equal exactly when
  the times are. This is the specification's round trip (section 8): with the timestamp
  normalised, regeneration is byte-identical.
\<close>

theorem run_module_timestamp_only:
  assumes "wf_datetime d1" "wf_datetime d2"
    and "run_module env d1 ''__main__'' apidat docdat = Some (Inr s1)"
    and "run_module env d2 ''__main__'' apidat docdat = Some (Inr s2)"
  shows "log s1 = log s2 \<and>
         (\<exists>pre post. out s1 = pre @ timenow d1 @ post \<and> out s2 = pre @ timenow d2 @ post) \<and>
         (out s1 = out s2 \<longleftrightarrow> d1 = d2)"
proof -
  let ?R = "seq_results (map (cmd_output env apidat docdat) (map fst apidat))"
  let ?A = "concat (map (\<lambda>l. l @ nl) (take 10 (clastr_lines [])))"
  let ?B = "'' - File generated'' @ nl @ concat (map (\<lambda>l. l @ nl) (drop 11 (clastr_lines [])))"
  from assms(3) obtain rs where rs: "?R = Inr rs"
    by (cases ?R) (simp_all add: run_module_def main_out_split)
  from assms(3,4) rs have s:
    "s1 = \<lparr>out = ?A @ timenow d1 @ ?B @ concat (map snd rs), log = banner # map fst rs\<rparr>"
    "s2 = \<lparr>out = ?A @ timenow d2 @ ?B @ concat (map snd rs), log = banner # map fst rs\<rparr>"
    by (simp_all add: run_module_def main_out_split)
  have "out s1 = out s2 \<longleftrightarrow> timenow d1 = timenow d2" by (simp add: s)
  with assms(1,2) have "out s1 = out s2 \<longleftrightarrow> d1 = d2" by (simp add: timenow_inj)
  with s show ?thesis by auto
qed

theorem run_module_timestamp_only_witness:
  "run_module demo_env \<lparr>year = 2017, month = 1, day = 1, hour = 0, minute = 0, second = 0\<rparr>
     ''__main__'' [(''Foo'', foo_cmd)] Map.empty =
     Some (Inr \<lparr>out = clastr ''2017-01-01 00:00:00'', log = [banner, ''... unknown command: Foo. SKIPPING'']\<rparr>) \<and>
   clastr ''2017-01-01 00:00:00'' \<noteq> clastr ''2017-01-01 00:00:01''"
proof -
  let ?d1 = "\<lparr>year = 2017, month = 1, day = 1, hour = 0, minute = 0, second = 0\<rparr>"
  let ?d2 = "\<lparr>year = 2017, month = 1, day = 1, hour = 0, minute = 0, second = 1\<rparr>"
  have wf: "wf_datetime ?d1" "wf_datetime ?d2" by code_simp+
  have t: "timenow ?d1 = ''2017-01-01 00:00:00''" "timenow ?d2 = ''2017-01-01 00:00:01''"
    by code_simp+
  have r: "run_module demo_env d ''__main__'' [(''Foo'', foo_cmd)] Map.empty =
     Some (Inr \<lparr>out = clastr (timenow d), log = [banner, ''... unknown command: Foo. SKIPPING'']\<rparr>)"
    for d :: datetime
    by (simp add: run_module_def main_def gen_command_def foo_cmd_def banner_def)
  from run_module_timestamp_only [OF wf r r] have
    "clastr (timenow ?d1) = clastr (timenow ?d2) \<longleftrightarrow> ?d1 = ?d2" by simp
  with r [of ?d1] t show ?thesis by simp
qed

end
