(* ===== verification/Spec2Isabelle.thy ===== *)
theory Spec2Isabelle
  imports Run Wrapper_IR Clock
begin

text \<open>
  \<^bold>\<open>A verified model of the pyfred API wrapper generator.\<close>

  \<^emph>\<open>The program.\<close> \<open>src/pyfred/script03_apiwrapgen.py\<close> generates the Python class
  \<open>Wrap\<close> that exposes every FRED command (function, subroutine, datastruct) as a
  method. \<open>main()\<close> reads two stores (the descriptor store \<open>apidat\<close>: kind, description,
  return entry and signature of every command; the documentation store \<open>docdat\<close>),
  writes the class header \<open>CLASTR\<close> stamped with \<open>TIMENOW\<close>, and then, for every
  command in key order, skips an \<open>unknown\<close> one or appends one wrapper. A wrapper is
  built in three stages that only pass values forward: the parameter names are
  normalised (the array marker \<open>()\<close> is stripped by the regular expression
  \<open>PARMAT\<close>, an annotation is recorded, \<open>self\<close> is prepended), the \<open>Returns\<close>
  section is composed from the kind, and the text (separator, \<open>def\<close> line,
  docstring, record-construction or stub-invocation body) is written.

  \<^emph>\<open>The theories.\<close>
  \<^item> \<open>Prelude\<close>: Python's exceptions as the values \<open>KeyError\<close>/\<open>ValueError\<close> of a sum
    type \<open>'a result\<close>; the string primitives (\<open>\s\<close>, \<open>str.upper\<close>, \<open>str.join\<close>),
    the indentation constants \<open>I1\<close>, \<open>I2\<close>, \<open>I3\<close> (lines 34--36) and the sequencing
    of fallible steps.
  \<^item> \<open>Parmat\<close>: \<open>PARMAT\<close> (line 41) as the executable matcher \<open>parmat_match\<close>,
    \<open>PARMAT.search\<close> as \<open>parmat_search\<close> and \<open>PARMAT.sub('', p)\<close> as
    \<open>parmat_sub\<close> (lines 155--156), a \<^theory_text>\<open>function\<close> whose termination
    rests on every match having length at least two.
  \<^item> \<open>Descriptor\<close>: the entries of \<open>apidat\<close> as the record \<open>api_entry\<close>, the kind
    as the datatype \<open>cmdtype\<close>; \<open>apidat\<close> is an association list (its key order is
    the loop's order), \<open>docdat\<close> a map.
  \<^item> \<open>Normalizer\<close>: the loop building \<open>newparams\<close> and \<open>annots\<close> (lines 148--161),
    \<open>paramlist\<close> (lines 207--209, its \<open>KeyError\<close> branch kept) and the argument list
    with the datastruct default \<open>=None\<close> (lines 210--217).
  \<^item> \<open>Returns\<close>: the section \<open>retstr\<close> (lines 163--205) with the \<open>ValueError\<close> of
    tuple unpacking, and the spec's composition rule as the abstract \<open>compose_ret\<close>
    and \<open>render_ret\<close> over the datatype \<open>ret_shape\<close>.
  \<^item> \<open>Emitter\<close>: every write of one wrapper (lines 138--147, 162, 206--264) as
    \<open>wrapper_text\<close>, including the \<open>KeyError\<close> of \<open>docdat[cmdname]\<close>.
  \<^item> \<open>Generator\<close>: \<open>CLASTR\<close> as \<open>clastr\<close>, the file and the printed lines as the
    record \<open>gen_state\<close>, one loop iteration as \<open>gen_command\<close>, the loop as
    \<open>run_cmds\<close> (the first exception ends the run and is its result) and \<open>main\<close>.
  \<^item> \<open>Run\<close>: the same loop (lines 132--265) as the inductive step relation
    \<open>gen_step\<close> on configurations \<open>run_cfg\<close>: running over the remaining names,
    stopped by an exception with the file and printed lines of that moment, or closed
    (line 265). One rule per branch of the loop body: missing key, skip, wrap, raise,
    close.
  \<^item> \<open>Wrapper_IR\<close>: the structured wrapper representation the specification's design
    notes ask for (section 9): \<open>build_ir\<close> takes the decisions (argument defaults,
    documented names and annotations, return shape, dispatch body) on data and
    \<open>render_ir\<close> renders them with the emitter's formatting pieces.
  \<^item> \<open>Clock\<close>: \<open>TIMENOW\<close> (line 38) as \<open>timenow\<close>, the \<open>strftime\<close> text of a
    clock value (the record \<open>datetime\<close>, fields printed by \<open>digits\<close>), and the
    \<open>__main__\<close> guard (lines 266--269) as \<open>run_module\<close>, which stamps the header
    with it and runs \<open>main\<close>; \<open>parse_timestamp\<close> is the reference decoder.

  \<^emph>\<open>Collaborators.\<close> \<open>utils.vb2pytype\<close>, \<open>utils.wrap_longlines\<close>,
  \<open>utils.fmt_docstr\<close>, \<open>glovars.STUBDIR\<close> and \<open>os.path.join\<close> are not under
  \<open>src/\<close>: they are the fields of the record \<open>collab\<close> passed to the emitter, so a
  theorem holds for every behaviour of them unless it states a hypothesis on them.
  The witnesses use \<open>demo_env\<close>, which translates \<open>String\<close> to \<open>str\<close> as
  the spec's examples do and does not wrap lines.

  \<^emph>\<open>What the lemmas show.\<close> The composer refines the spec's rule (\<open>retstr_refines\<close>)
  and raises exactly on malformed return entries; the regex model is the greedy
  match of the pattern, the substitution deletes only whitespace and parentheses,
  strips a trailing marker, never lengthens a name and is a single pass at every
  nesting depth; the loop is independent per-command generation followed by
  concatenation and succeeds exactly when every recognised command is documented and
  well formed. Every configuration of the step relation reachable from the start
  satisfies the loop invariant (the file is the header and the texts of the commands
  handled so far), a run stopped by an exception has written complete wrappers only,
  and along any steps the file and the printed lines are append-only
  (\<open>steps_append_only\<close>). The emitted text is exactly the rendering of the
  structured representation, and that representation is always consistent
  (\<open>wf_ir\<close>): the arguments after \<open>self\<close>, the documented parameters and the names
  the body uses coincide. Composed with the run, a successful run writes the header
  followed by renderings of well-formed wrappers named exactly by the recognised
  commands, in key order and without repetition, so no generated method overrides
  another (\<open>main_out_structured\<close>). The timestamp format is lossless on the values
  the clock produces (\<open>timestamp_roundtrip\<close>), and two runs of the script at two
  times differ only in the timestamp, which always shows
  (\<open>run_module_timestamp_only\<close>).

  \<^emph>\<open>Not modelled.\<close> File and YAML I/O and the IPython debugger hook: the file is
  the \<open>out\<close> field of the state, the stores are parameters; reading the clock
  (\<open>datetime.now()\<close>) is input, so the clock value is a parameter of
  \<open>run_module\<close>, restricted to the four-digit years the format is specified
  for; non-ASCII text (characters are bytes, whitespace is ASCII whitespace);
  malformed signature entries (the signature is a list of pairs, as in the spec's data
  model; such an entry would raise at line 230, after the wrapper's first writes). A
  kind is \<open>Other s\<close> only for a string \<open>s\<close> that is none of the four compared
  values; the values \<open>Other ''function''\<close> and the like are not produced by reading
  the store. Python's \<open>re\<close> engine is not modelled on its own: \<open>parmat_sub\<close> and
  \<open>parmat_search\<close> are the behaviour of the two calls on this one pattern. No loop
  needs fuel: every recursion is structural or has a length measure.

  \<^emph>\<open>What modelling showed.\<close> A command missing from \<open>docdat\<close> raises \<open>KeyError\<close>
  (line 162) where the spec expects empty documentation (\<open>wrapper_text_missing_doc\<close>);
  a \<open>returns\<close> entry of the wrong length raises \<open>ValueError\<close> (lines 173, 194) where
  the spec expects malformed output (\<open>retstr_malformed\<close>); a datastruct parameter
  named \<open>self\<close> or \<open>self()\<close> loses its \<open>=None\<close> default
  (\<open>arglist_datastruct_defaults\<close>); \<open>PARMAT.sub\<close> is one pass, so a marker
  nested to depth two or more leaves a marker behind (\<open>parmat_sub_one_pass\<close>); a kind string other than the four is wrapped as a
  function without a \<open>Returns\<close> section (\<open>retstr_none_iff\<close>). For signature
  entries that are pairs, every exception of a wrapper is raised before its first
  write, so a run stopped by one leaves the header and complete wrappers, where the spec promises no usable partial artifact
  (\<open>reachable_failed_output\<close>).

  \<^emph>\<open>Plan for the development.\<close> Modelled first, because it is the decision logic:
  the composer (\<open>Returns\<close>) and the normalizer with \<open>PARMAT\<close>; then the emitter and
  the run; then the run as a step relation, the structured wrapper representation of
  section 9, the timestamp and the entry point; last, the composition of the run with
  the structured representation (order and uniqueness of the generated methods) and
  the append-only sink. Every line of the script that computes something is now
  modelled. What remains beyond this development concerns the collaborators outside
  \<open>src/\<close>: the constraints the spec places on them (\<open>wrap_longlines\<close> keeping the
  empty string, \<open>vb2pytype\<close> as a lookup) could be stated as hypotheses, and the
  layout of the emitted text (every line inside the class body) depends on what they
  return.
\<close>

end
